theory Spec2Isabelle
  imports Complex_Main "HOL-Library.Sublist"
begin

section \<open>Python strings\<close>

text \<open>
  A Python \<open>str\<close> is a sequence of Unicode code points and \<open>len\<close> counts code points,
  so a string is a list of code-point numbers. \<open>ascii\<close> reads an ASCII literal.
\<close>

type_synonym ustring = "nat list"

definition ascii :: "string \<Rightarrow> ustring" where
  "ascii s = map of_char s"

text \<open>
  \<open>str.strip()\<close>, and \<open>\s\<close> in a \<open>str\<close> pattern, use the whitespace table of the
  interpreter: TAB..CR, FS..US, space, NEL, NBSP and the Unicode space separators.
\<close>

definition isspace :: "nat \<Rightarrow> bool" where
  "isspace c \<longleftrightarrow>
     (9 \<le> c \<and> c \<le> 13) \<or> (28 \<le> c \<and> c \<le> 32) \<or> c = 133 \<or> c = 160 \<or> c = 5760 \<or>
     (8192 \<le> c \<and> c \<le> 8202) \<or> c = 8232 \<or> c = 8233 \<or> c = 8239 \<or> c = 8287 \<or> c = 12288"

definition strip :: "ustring \<Rightarrow> ustring" where
  "strip s = rev (dropWhile isspace (rev (dropWhile isspace s)))"

text \<open>The line boundaries of \<open>str.splitlines()\<close>; CR LF counts as one boundary.\<close>

definition is_linebreak :: "nat \<Rightarrow> bool" where
  "is_linebreak c \<longleftrightarrow>
     c = 10 \<or> c = 11 \<or> c = 12 \<or> c = 13 \<or> c = 28 \<or> c = 29 \<or> c = 30 \<or> c = 133 \<or>
     c = 8232 \<or> c = 8233"

fun splitlines_from :: "ustring \<Rightarrow> ustring \<Rightarrow> ustring list" where
  "splitlines_from cur [] = (if cur = [] then [] else [cur])"
| "splitlines_from cur [c] =
     (if is_linebreak c then [cur] else [cur @ [c]])"
| "splitlines_from cur (c # d # cs) =
     (if c = 13 \<and> d = 10 then cur # splitlines_from [] cs
      else if is_linebreak c then cur # splitlines_from [] (d # cs)
      else splitlines_from (cur @ [c]) (d # cs))"

definition splitlines :: "ustring \<Rightarrow> ustring list" where
  "splitlines s = splitlines_from [] s"

text \<open>\<open>sep.join(items)\<close>.\<close>

fun join :: "ustring \<Rightarrow> ustring list \<Rightarrow> ustring" where
  "join sep [] = []"
| "join sep [x] = x"
| "join sep (x # y # ys) = x @ sep @ join sep (y # ys)"

text \<open>\<open>needle in haystack\<close> on strings: the needle occurs as a contiguous run.\<close>

fun py_in :: "ustring \<Rightarrow> ustring \<Rightarrow> bool" where
  "py_in xs [] = (xs = [])"
| "py_in xs (y # ys) = (prefix xs (y # ys) \<or> py_in xs ys)"

text \<open>\<open>a <= b\<close> on strings: lexicographic by code point.\<close>

fun str_le :: "ustring \<Rightarrow> ustring \<Rightarrow> bool" where
  "str_le [] ys = True"
| "str_le (x # xs) [] = False"
| "str_le (x # xs) (y # ys) = (x < y \<or> (x = y \<and> str_le xs ys))"

text \<open>\<open>str(n)\<close> of an integer, as an f-string formats it.\<close>

function digits :: "nat \<Rightarrow> ustring" where
  "digits n = (if n < 10 then [48 + n] else digits (n div 10) @ [48 + n mod 10])"
  by pat_completeness auto
termination
  by (relation "measure id") auto

declare digits.simps [simp del]

definition str_int :: "int \<Rightarrow> ustring" where
  "str_int i = (if i < 0 then 45 # digits (nat (- i)) else digits (nat i))"

text \<open>\<open>xs[:n]\<close>: a negative bound counts from the end.\<close>

definition slice_to :: "int \<Rightarrow> 'a list \<Rightarrow> 'a list" where
  "slice_to n xs = (if 0 \<le> n then take (nat n) xs else take (length xs - nat (- n)) xs)"

text \<open>
  The tables of the Unicode database that the program reads through \<open>str.lower()\<close> and
  through \<open>\d\<close> in a pattern are large and depend on the interpreter's Unicode version;
  they are a parameter of the model. \<open>str.lower()\<close> is not a map over characters (a
  character may lower to several, and a final sigma depends on its context), so it is a
  function on whole strings.
\<close>

record ucd =
  lower :: "ustring \<Rightarrow> ustring"
  isdecimal :: "nat \<Rightarrow> bool"

text \<open>The tables restricted to the basic Latin and Russian alphabets and ASCII digits.\<close>

definition lower_basic_char :: "nat \<Rightarrow> nat" where
  "lower_basic_char c =
     (if 65 \<le> c \<and> c \<le> 90 then c + 32
      else if 1040 \<le> c \<and> c \<le> 1071 then c + 32
      else if c = 1025 then 1105
      else c)"

definition basic_ucd :: ucd where
  "basic_ucd = \<lparr>lower = map lower_basic_char, isdecimal = (\<lambda>c. 48 \<le> c \<and> c \<le> 57)\<rparr>"

text \<open>
  The same tables with the Greek alphabet. A capital sigma lowers to the final form
  when a cased letter stands before it and none after it, and to the medial form
  otherwise; this is the final-sigma rule of \<open>str.lower()\<close> without the case-ignorable
  characters that the full rule skips, so the table is exact on strings of letters and
  spaces of the three alphabets.
\<close>

definition is_cased_letter :: "nat \<Rightarrow> bool" where
  "is_cased_letter c \<longleftrightarrow>
     (65 \<le> c \<and> c \<le> 90) \<or> (97 \<le> c \<and> c \<le> 122) \<or>
     (913 \<le> c \<and> c \<le> 929) \<or> (931 \<le> c \<and> c \<le> 937) \<or> (945 \<le> c \<and> c \<le> 969) \<or>
     (1040 \<le> c \<and> c \<le> 1103) \<or> c = 1025 \<or> c = 1105"

definition lower_greek_char :: "nat \<Rightarrow> nat" where
  "lower_greek_char c =
     (if (913 \<le> c \<and> c \<le> 929) \<or> (931 \<le> c \<and> c \<le> 937) then c + 32
      else lower_basic_char c)"

fun lower_final_sigma :: "bool \<Rightarrow> ustring \<Rightarrow> ustring" where
  "lower_final_sigma prev [] = []"
| "lower_final_sigma prev (c # cs) =
     (if c = 931
      then (if prev \<and> (case cs of [] \<Rightarrow> True | d # ds \<Rightarrow> \<not> is_cased_letter d)
            then 962 else 963)
      else lower_greek_char c) # lower_final_sigma (is_cased_letter c) cs"

definition greek_ucd :: ucd where
  "greek_ucd = \<lparr>lower = lower_final_sigma False, isdecimal = (\<lambda>c. 48 \<le> c \<and> c \<le> 57)\<rparr>"

section \<open>Utilities\<close>

text \<open>
  \<open>detect_language\<close>: counts the characters whose lower-case form lies between the
  Russian letters a and ya (or that are the letter yo), and those between \<open>a\<close> and \<open>z\<close>.
\<close>

definition is_cyr :: "ucd \<Rightarrow> nat \<Rightarrow> bool" where
  "is_cyr U ch \<longleftrightarrow> (str_le [1072] (lower U [ch]) \<and> str_le (lower U [ch]) [1103]) \<or> ch = 1105"

definition is_lat :: "ucd \<Rightarrow> nat \<Rightarrow> bool" where
  "is_lat U ch \<longleftrightarrow> str_le [97] (lower U [ch]) \<and> str_le (lower U [ch]) [122]"

definition detect_language :: "ucd \<Rightarrow> ustring \<Rightarrow> ustring" where
  "detect_language U txt =
     (let cyr = length (filter (is_cyr U) txt);
          lat = length (filter (is_lat U) txt)
      in if cyr \<ge> lat then ascii ''ru'' else ascii ''en'')"

text \<open>\<open>missing_keywords\<close>: \<open>None\<close> and the empty list are both falsy.\<close>

definition missing_keywords :: "ucd \<Rightarrow> ustring \<Rightarrow> ustring list option \<Rightarrow> ustring list" where
  "missing_keywords U txt keywords_opt =
     (case keywords_opt of
        None \<Rightarrow> []
      | Some kws \<Rightarrow>
          if kws = [] then []
          else (let t = lower U txt in filter (\<lambda>kw. \<not> py_in (lower U kw) t) kws))"

section \<open>Data structures\<close>

record FieldCheck =
  length_fc :: nat
  max_allowed :: int
  ok_length :: bool
  missing_keywords_fc :: "ustring list"

definition check_field :: "ucd \<Rightarrow> ustring \<Rightarrow> int \<Rightarrow> ustring list option \<Rightarrow> FieldCheck" where
  "check_field U txt max_len keywords_opt =
     \<lparr>length_fc = length txt,
      max_allowed = max_len,
      ok_length = (int (length txt) \<le> max_len),
      missing_keywords_fc = missing_keywords U txt keywords_opt\<rparr>"

record SEOResult =
  topic :: ustring
  language :: ustring
  "keywords" :: "ustring list"
  meta_description :: ustring
  title :: ustring
  summary :: ustring
  checks :: "ustring \<rightharpoonup> FieldCheck"
  model_used :: ustring
  timestamp :: ustring

section \<open>The completion service and the file system\<close>

text \<open>
  Every exception is a value. The client raises \<open>APIConnectionError\<close> when the endpoint
  cannot be reached and may raise other errors; \<open>resp.choices[0]\<close> raises \<open>IndexError\<close>
  on an empty list, \<open>open\<close> and \<open>json.dump\<close> raise \<open>OSError\<close>, a missing dictionary
  key raises \<open>KeyError\<close>.
\<close>

datatype error = APIConnectionError | APIStatusError int | IndexError | OSError | KeyError ustring

text \<open>The keyword arguments of \<open>client.chat.completions.create\<close>.\<close>

record request =
  req_model :: ustring
  req_system :: ustring
  req_user :: ustring
  req_temperature :: real
  req_top_p :: real
  req_max_tokens :: int

text \<open>
  The part of the response that \<open>_chat\<close> reads. An attribute that is absent and one that
  is \<open>None\<close> are both \<open>None\<close> for \<open>content\<close> and \<open>text\<close> (they are read with
  \<open>getattr(_, _, None)\<close>); \<open>reasoning_content\<close> is first tested with \<open>hasattr\<close>, so there
  the outer \<open>None\<close> is the absent attribute.
\<close>

record choice =
  msg_content :: "ustring option"
  msg_reasoning_content :: "ustring option option"
  choice_text :: "ustring option"

type_synonym response = "choice list"

text \<open>
  The world outside the program: the completion service answers a request knowing the
  requests made before it (so a scripted or stateful service is covered), the file
  system accepts or refuses a write, the clock gives the formatted time.
\<close>

record env =
  create :: "request list \<Rightarrow> request \<Rightarrow> error + response"
  write_error :: "ustring \<Rightarrow> SEOResult \<Rightarrow> error option"
  strftime :: ustring

text \<open>The state a run changes: the requests sent so far, and the artifacts written.\<close>

record world =
  calls :: "request list"
  files :: "ustring \<rightharpoonup> SEOResult"

type_synonym 'a io = "world \<Rightarrow> (error + 'a) \<times> world"

definition return_io :: "'a \<Rightarrow> 'a io" where
  "return_io x w = (Inr x, w)"

definition bind_io :: "'a io \<Rightarrow> ('a \<Rightarrow> 'b io) \<Rightarrow> 'b io" where
  "bind_io m f w = (case m w of (Inl e, w') \<Rightarrow> (Inl e, w') | (Inr x, w') \<Rightarrow> f x w')"

section \<open>The system\<close>

record SEOContentSystem =
  model :: ustring
  temperature :: real
  top_p :: real

text \<open>Python's \<open>a or b\<close> on optional strings: \<open>None\<close> and the empty string are falsy.\<close>

definition truthy :: "ustring option \<Rightarrow> bool" where
  "truthy a \<longleftrightarrow> (case a of None \<Rightarrow> False | Some s \<Rightarrow> s \<noteq> [])"

definition py_or :: "ustring option \<Rightarrow> ustring option \<Rightarrow> ustring option" where
  "py_or a b = (if truthy a then a else b)"

text \<open>\<open>_chat\<close>: one request, no retry; the answer is read from the first choice and trimmed.\<close>

definition chat :: "env \<Rightarrow> SEOContentSystem \<Rightarrow> ustring \<Rightarrow> ustring \<Rightarrow> ustring \<Rightarrow> int \<Rightarrow> ustring io" where
  "chat E self mdl system user max_tokens w =
     (let req = \<lparr>req_model = mdl, req_system = system, req_user = user,
                 req_temperature = temperature self, req_top_p = top_p self,
                 req_max_tokens = max_tokens\<rparr>;
          w' = w\<lparr>calls := calls w @ [req]\<rparr>
      in case create E (calls w) req of
           Inl e \<Rightarrow> (Inl e, w')
         | Inr resp \<Rightarrow>
             (case resp of
                [] \<Rightarrow> (Inl IndexError, w')
              | c # _ \<Rightarrow>
                  (let txt = py_or (msg_content c) (choice_text c);
                       txt' = (if \<not> truthy txt \<and> msg_reasoning_content c \<noteq> None
                               then the (msg_reasoning_content c) else txt)
                   in (Inr (strip (the (py_or txt' (Some [])))), w'))))"

subsection \<open>Keyword synthesis\<close>

definition keywords_prompt :: "ustring \<Rightarrow> int \<Rightarrow> ustring \<Rightarrow> ustring \<times> ustring" where
  "keywords_prompt lang n tp =
     (if lang = ascii ''ru'' then
        ([1058, 1099, 32, 83, 69, 79, 45, 1089, 1087, 1077, 1094, 1080, 1072, 1083, 1080, 1089,
          1090, 46, 32, 1054, 1090, 1074, 1077, 1095, 1072, 1081, 32, 1089, 1087, 1080, 1089,
          1082, 1086, 1084, 44, 32, 1087, 1086, 32, 1086, 1076, 1085, 1086, 1084, 1091, 32, 1089,
          1083, 1086, 1074, 1091, 32, 1080, 1083, 1080, 32, 1092, 1088, 1072, 1079, 1077, 32,
          1085, 1072, 32, 1089, 1090, 1088, 1086, 1082, 1091, 46],
         [1057, 1075, 1077, 1085, 1077, 1088, 1080, 1088, 1091, 1081, 32] @ str_int n @
         [32, 1088, 1077, 1083, 1077, 1074, 1072, 1085, 1090, 1085, 1099, 1093, 32, 1082, 1083,
          1102, 1095, 1077, 1074, 1099, 1093, 32, 1089, 1083, 1086, 1074, 32, 1087, 1086, 32,
          1090, 1077, 1084, 1077, 58, 32] @ tp @ ascii ''.'')
      else
        (ascii ''You are an SEO specialist. Reply with a list, one keyword or phrase per line.'',
         ascii ''Generate '' @ str_int n @ ascii '' relevant keywords for the topic: '' @ tp @
         ascii ''.''))"

text \<open>
  \<open>re.sub(r'^[\-\d\.\)\s]+', '', line)\<close>: without the MULTILINE flag the anchor matches at
  the start of the string only, and the greedy class consumes the longest leading run of
  dashes, decimal digits, dots, closing parentheses and whitespace.
\<close>

definition is_marker :: "ucd \<Rightarrow> nat \<Rightarrow> bool" where
  "is_marker U c \<longleftrightarrow> c = 45 \<or> isdecimal U c \<or> c = 46 \<or> c = 41 \<or> isspace c"

definition strip_markers :: "ucd \<Rightarrow> ustring \<Rightarrow> ustring" where
  "strip_markers U line = dropWhile (is_marker U) line"

definition keyword_lines :: "ucd \<Rightarrow> ustring \<Rightarrow> ustring list" where
  "keyword_lines U txt =
     map (\<lambda>line. strip (strip_markers U line)) (filter (\<lambda>line. strip line \<noteq> []) (splitlines txt))"

text \<open>The loop over \<open>kws\<close>, with its two accumulators \<open>seen\<close> and \<open>result\<close>.\<close>

fun dedup :: "ucd \<Rightarrow> ustring list \<Rightarrow> ustring set \<Rightarrow> ustring list \<Rightarrow> ustring list" where
  "dedup U [] seen result = result"
| "dedup U (kw # kws) seen result =
     (let low = lower U kw
      in if low \<notin> seen then dedup U kws (insert low seen) (result @ [kw])
         else dedup U kws seen result)"

definition generate_synthetic_keywords ::
  "ucd \<Rightarrow> env \<Rightarrow> SEOContentSystem \<Rightarrow> ustring \<Rightarrow> ustring \<Rightarrow> int \<Rightarrow> ustring list io" where
  "generate_synthetic_keywords U E self tp lang n =
     (case keywords_prompt lang n tp of (system, user) \<Rightarrow>
        bind_io (chat E self (model self) system user 200) (\<lambda>txt.
        return_io (slice_to n (dedup U (keyword_lines U txt) {} []))))"

subsection \<open>Field generation\<close>

text \<open>
  The keyword clause of a prompt: \<open>f" Include: {', '.join(keywords)}." if keywords else ""\<close>.
\<close>

definition keyword_clause :: "ustring \<Rightarrow> ustring list option \<Rightarrow> ustring" where
  "keyword_clause intro keywords_opt =
     (case keywords_opt of
        None \<Rightarrow> []
      | Some kws \<Rightarrow> if kws = [] then [] else intro @ join (ascii '', '') kws @ ascii ''.'')"

text \<open>The system and user instructions that each generator builds, by language.\<close>

definition meta_description_prompt :: "ustring \<Rightarrow> ustring \<Rightarrow> ustring list option \<Rightarrow> ustring \<times> ustring" where
  "meta_description_prompt tp lang keywords_opt =
     (if lang = ascii ''ru'' then
        ([1058, 1099, 32, 1084, 1072, 1088, 1082, 1077, 1090, 1086, 1083, 1086, 1075, 46, 32,
          1054, 1090, 1074, 1077, 1090, 1100, 32, 1058, 1054, 1051, 1068, 1050, 1054, 32, 109,
          101, 116, 97, 32, 100, 101, 115, 99, 114, 105, 112, 116, 105, 111, 110, 32, 40, 1076,
          1086, 32, 49, 53, 48, 32, 1089, 1080, 1084, 1074, 1086, 1083, 1086, 1074, 41, 46],
         [1053, 1072, 1087, 1080, 1096, 1080, 32, 109, 101, 116, 97, 32, 100, 101, 115, 99, 114,
          105, 112, 116, 105, 111, 110, 32, 1076, 1083, 1103, 32, 1089, 1072, 1081, 1090, 1072,
          32, 1086, 32] @ tp @ ascii ''.'' @
         keyword_clause
           [32, 1042, 1082, 1083, 1102, 1095, 1080, 32, 1089, 1083, 1086, 1074, 1072, 58, 32]
           keywords_opt)
      else
        (ascii ''You are a marketing specialist. Reply ONLY with a meta description (<=150 characters).'',
         ascii ''Write a meta description for a website about '' @ tp @ ascii ''.'' @
         keyword_clause (ascii '' Include words: '') keywords_opt))"

definition title_prompt :: "ustring \<Rightarrow> ustring \<Rightarrow> ustring list option \<Rightarrow> ustring \<times> ustring" where
  "title_prompt tp lang keywords_opt =
     (if lang = ascii ''ru'' then
        ([1058, 1099, 32, 83, 69, 79, 45, 1082, 1086, 1087, 1080, 1088, 1072, 1081, 1090, 1077,
          1088, 46, 32, 1042, 1077, 1088, 1085, 1080, 32, 1058, 1054, 1051, 1068, 1050, 1054, 32,
          1079, 1072, 1075, 1086, 1083, 1086, 1074, 1086, 1082, 32, 40, 1076, 1086, 32, 54, 48,
          32, 1089, 1080, 1084, 1074, 1086, 1083, 1086, 1074, 41, 46],
         [1057, 1086, 1079, 1076, 1072, 1081, 32, 1082, 1083, 1080, 1082, 1072, 1073, 1077, 1083,
          1100, 1085, 1099, 1081, 32, 116, 105, 116, 108, 101, 32, 1087, 1086, 32, 1090, 1077,
          1084, 1077, 58, 32] @ tp @ ascii ''.'' @
         keyword_clause [32, 1044, 1086, 1073, 1072, 1074, 1100, 58, 32] keywords_opt)
      else
        (ascii ''You are an SEO copywriter. Return ONLY a title (<=60 chars).'',
         ascii ''Create a catchy SEO title about: '' @ tp @ ascii ''.'' @
         keyword_clause (ascii '' Include: '') keywords_opt))"

definition summary_prompt :: "ustring \<Rightarrow> ustring \<Rightarrow> ustring list option \<Rightarrow> ustring \<times> ustring" where
  "summary_prompt tp lang keywords_opt =
     (if lang = ascii ''ru'' then
        ([1058, 1099, 32, 1088, 1077, 1076, 1072, 1082, 1090, 1086, 1088, 46, 32, 1042, 1077,
          1088, 1085, 1080, 32, 49, 8211, 50, 32, 1087, 1088, 1077, 1076, 1083, 1086, 1078, 1077,
          1085, 1080, 1103, 32, 40, 1076, 1086, 32, 51, 48, 48, 32, 1089, 1080, 1084, 1074, 1086,
          1083, 1086, 1074, 41, 46],
         [1050, 1088, 1072, 1090, 1082, 1086, 32, 1086, 1087, 1080, 1096, 1080, 32, 1090, 1077,
          1084, 1091, 58, 32] @ tp @ ascii ''.'' @
         keyword_clause [32, 1042, 1082, 1083, 1102, 1095, 1080, 58, 32] keywords_opt)
      else
        (ascii ''You are an editor. Return 1'' @ [8211] @ ascii ''2 sentences (<=300 chars).'',
         ascii ''Briefly describe the topic: '' @ tp @ ascii ''.'' @
         keyword_clause (ascii '' Include: '') keywords_opt))"

text \<open>Each generator sends one request and returns \<open>text[:limit].strip()\<close>.\<close>

definition generate_meta_description ::
  "env \<Rightarrow> SEOContentSystem \<Rightarrow> ustring \<Rightarrow> ustring \<Rightarrow> ustring list option \<Rightarrow> ustring io" where
  "generate_meta_description E self tp lang keywords_opt =
     (case meta_description_prompt tp lang keywords_opt of (sys, user) \<Rightarrow>
        bind_io (chat E self (model self) sys user 120) (\<lambda>txt.
        return_io (strip (take 150 txt))))"

definition generate_title ::
  "env \<Rightarrow> SEOContentSystem \<Rightarrow> ustring \<Rightarrow> ustring \<Rightarrow> ustring list option \<Rightarrow> ustring io" where
  "generate_title E self tp lang keywords_opt =
     (case title_prompt tp lang keywords_opt of (sys, user) \<Rightarrow>
        bind_io (chat E self (model self) sys user 60) (\<lambda>txt.
        return_io (strip (take 60 txt))))"

definition generate_summary ::
  "env \<Rightarrow> SEOContentSystem \<Rightarrow> ustring \<Rightarrow> ustring \<Rightarrow> ustring list option \<Rightarrow> ustring io" where
  "generate_summary E self tp lang keywords_opt =
     (case summary_prompt tp lang keywords_opt of (sys, user) \<Rightarrow>
        bind_io (chat E self (model self) sys user 180) (\<lambda>txt.
        return_io (strip (take 300 txt))))"

subsection \<open>The pipeline\<close>

text \<open>
  \<open>json.dump\<close> into the file opened at the path. A refused write raises; nothing is said
  about what a refused write leaves in the file.
\<close>

definition dump_json :: "env \<Rightarrow> ustring \<Rightarrow> SEOResult \<Rightarrow> unit io" where
  "dump_json E path res w =
     (case write_error E path res of
        Some e \<Rightarrow> (Inl e, w)
      | None \<Rightarrow> (Inr (), w\<lparr>files := (files w)(path \<mapsto> res)\<rparr>))"

text \<open>
  \<open>run\<close>. \<open>language or detect_language(topic)\<close> and \<open>keywords or []\<close> test truthiness;
  keyword synthesis is called with its default count 8.
\<close>

definition run ::
  "ucd \<Rightarrow> env \<Rightarrow> SEOContentSystem \<Rightarrow> ustring \<Rightarrow> ustring option \<Rightarrow> ustring list option \<Rightarrow>
   bool \<Rightarrow> ustring option \<Rightarrow> SEOResult io" where
  "run U E self tp language_opt keywords_opt synth_keywords_if_missing out_json_path =
     (let lang = (if truthy language_opt then the language_opt else detect_language U tp);
          kws0 = (case keywords_opt of None \<Rightarrow> [] | Some ks \<Rightarrow> if ks \<noteq> [] then ks else [])
      in
        bind_io (if kws0 = [] \<and> synth_keywords_if_missing
                 then generate_synthetic_keywords U E self tp lang 8
                 else return_io kws0) (\<lambda>kws.
        bind_io (generate_meta_description E self tp lang (Some kws)) (\<lambda>meta.
        bind_io (generate_title E self tp lang (Some kws)) (\<lambda>ttl.
        bind_io (generate_summary E self tp lang (Some kws)) (\<lambda>summ.
          (let result =
                 \<lparr>topic = tp, language = lang, keywords = kws,
                  meta_description = meta, title = ttl, summary = summ,
                  checks =
                    [ascii ''meta_description'' \<mapsto> check_field U meta 150 (Some kws),
                     ascii ''title'' \<mapsto> check_field U ttl 60 (Some kws),
                     ascii ''summary'' \<mapsto> check_field U summ 300 (Some kws)],
                  model_used = model self, timestamp = strftime E\<rparr>
           in bind_io (if truthy out_json_path then dump_json E (the out_json_path) result
                       else return_io ()) (\<lambda>_.
              return_io result)))))))"

section \<open>The report\<close>

definition mark :: "bool \<Rightarrow> ustring" where
  "mark ok = (if ok then [10003] else [10007])"

definition list_or_dash :: "ustring list \<Rightarrow> ustring" where
  "list_or_dash items = (if items \<noteq> [] then join (ascii '', '') items else [8212])"

text \<open>The head line and the check line that the report prints for one field.\<close>

definition field_head :: "string \<Rightarrow> FieldCheck \<Rightarrow> ustring \<Rightarrow> ustring" where
  "field_head name c txt =
     ascii name @ ascii '' ('' @ str_int (int (length_fc c)) @ ascii ''/'' @
     str_int (max_allowed c) @ ascii ''): '' @ txt"

definition field_line :: "FieldCheck \<Rightarrow> ustring" where
  "field_line c =
     [32, 32, 1044, 1083, 1080, 1085, 1072, 32, 1054, 1050, 58, 32] @ mark (ok_length c) @
     [59, 32, 1054, 1090, 1089, 1091, 1090, 1089, 1090, 1074, 1091, 1102, 1090, 32, 1082, 1083,
      1102, 1095, 1077, 1074, 1099, 1077, 58, 32] @ list_or_dash (missing_keywords_fc c)"

definition verdict_prefix :: ustring where
  "verdict_prefix =
     [1048, 1090, 1086, 1075, 1086, 1074, 1072, 1103, 32, 1084, 1077, 1090, 1088, 1080, 1082,
      1072, 32, 40, 1074, 1089, 1077, 32, 1090, 1088, 1077, 1073, 1086, 1074, 1072, 1085, 1080,
      1103, 32, 1074, 1099, 1087, 1086, 1083, 1085, 1077, 1085, 1099, 41, 58, 32]"

text \<open>
  The list \<open>report\<close> of \<open>pretty_report\<close>. The three subscripts \<open>ch[...]\<close> are evaluated
  first, in the order meta description, title, summary; a missing key raises.
\<close>

definition report_lines :: "SEOResult \<Rightarrow> error + ustring list" where
  "report_lines res =
     (case checks res (ascii ''meta_description'') of
        None \<Rightarrow> Inl (KeyError (ascii ''meta_description''))
      | Some m \<Rightarrow>
     (case checks res (ascii ''title'') of
        None \<Rightarrow> Inl (KeyError (ascii ''title''))
      | Some t \<Rightarrow>
     (case checks res (ascii ''summary'') of
        None \<Rightarrow> Inl (KeyError (ascii ''summary''))
      | Some s \<Rightarrow>
         (let meta_ok = (ok_length m \<and> missing_keywords_fc m = []);
              title_ok = (ok_length t \<and> missing_keywords_fc t = []);
              summary_ok = (ok_length s \<and> missing_keywords_fc s = [])
          in Inr
            [[1058, 1077, 1084, 1072, 58, 32] @ topic res,
             [1071, 1079, 1099, 1082, 58, 32] @ language res,
             [1050, 1083, 1102, 1095, 1077, 1074, 1099, 1077, 32, 1089, 1083, 1086, 1074, 1072,
              58, 32] @ (if keywords res \<noteq> [] then join (ascii '', '') (keywords res) else [8212]),
             [],
             field_head ''TITLE'' t (title res),
             field_line t,
             [],
             field_head ''META'' m (meta_description res),
             field_line m,
             [],
             field_head ''SUMMARY'' s (summary res),
             field_line s,
             [],
             [1052, 1086, 1076, 1077, 1083, 1100, 58, 32] @ model_used res,
             [1042, 1088, 1077, 1084, 1103, 58, 32] @ timestamp res,
             [],
             [1041, 1072, 1079, 1086, 1074, 1099, 1081, 32, 1082, 1088, 1080, 1090, 1077, 1088,
              1080, 1081, 58, 32, 1082, 1086, 1085, 1090, 1077, 1085, 1090, 32, 1089, 1086, 1079,
              1076, 1072, 1085, 46],
             verdict_prefix @ mark (meta_ok \<and> title_ok \<and> summary_ok)]))))"

definition pretty_report :: "SEOResult \<Rightarrow> error + ustring" where
  "pretty_report res =
     (case report_lines res of Inl e \<Rightarrow> Inl e | Inr report \<Rightarrow> Inr (join [10] report))"

section \<open>The stages of a run\<close>

text \<open>
  The two resolution steps of a run as the specification words them. The language: the
  caller's, if one is given, else the detected one. The keywords: the caller's if that
  list is non-empty, else the synthesizer's output if synthesis is enabled, else the empty
  list. \<open>assemble\<close> is the record that \<open>run\<close> builds from the generated fields.
\<close>

definition resolved_language :: "ucd \<Rightarrow> ustring \<Rightarrow> ustring option \<Rightarrow> ustring" where
  "resolved_language U tp language_opt =
     (if truthy language_opt then the language_opt else detect_language U tp)"

definition resolve_keywords ::
  "ucd \<Rightarrow> env \<Rightarrow> SEOContentSystem \<Rightarrow> ustring \<Rightarrow> ustring \<Rightarrow> ustring list option \<Rightarrow> bool \<Rightarrow> ustring list io" where
  "resolve_keywords U E self tp lang keywords_opt synth =
     (case keywords_opt of
        Some ks \<Rightarrow> if ks \<noteq> [] then return_io ks
                   else if synth then generate_synthetic_keywords U E self tp lang 8 else return_io []
      | None \<Rightarrow> if synth then generate_synthetic_keywords U E self tp lang 8 else return_io [])"

definition assemble :: "ucd \<Rightarrow> env \<Rightarrow> SEOContentSystem \<Rightarrow> ustring \<Rightarrow> ustring \<Rightarrow> ustring list \<Rightarrow> ustring \<Rightarrow> ustring \<Rightarrow> ustring \<Rightarrow> SEOResult" where
  "assemble U E self tp lang kws meta ttl summ =
     \<lparr>topic = tp, language = lang, keywords = kws,
      meta_description = meta, title = ttl, summary = summ,
      checks =
        [ascii ''meta_description'' \<mapsto> check_field U meta 150 (Some kws),
         ascii ''title'' \<mapsto> check_field U ttl 60 (Some kws),
         ascii ''summary'' \<mapsto> check_field U summ 300 (Some kws)],
      model_used = model self, timestamp = strftime E\<rparr>"

text \<open>The request that \<open>_chat\<close> sends for a pair of instructions and a token budget.\<close>

definition request_of :: "SEOContentSystem \<Rightarrow> ustring \<times> ustring \<Rightarrow> int \<Rightarrow> request" where
  "request_of self p max_tokens =
     \<lparr>req_model = model self, req_system = fst p, req_user = snd p,
      req_temperature = temperature self, req_top_p = top_p self,
      req_max_tokens = max_tokens\<rparr>"

section \<open>A scripted completion service\<close>

text \<open>
  A mocked service, as the scenarios use it: the k-th request is answered by the k-th
  entry of a script, a text (returned as the message content of a single choice) or an
  error; past the end of the script the endpoint is unreachable.
\<close>

definition scripted :: "(error + ustring) list \<Rightarrow> request list \<Rightarrow> request \<Rightarrow> error + response" where
  "scripted answers sent req =
     (if length sent < length answers then
        (case answers ! length sent of
           Inl e \<Rightarrow> Inl e
         | Inr s \<Rightarrow> Inr [\<lparr>msg_content = Some s, msg_reasoning_content = None, choice_text = None\<rparr>])
      else Inl APIConnectionError)"

definition mock_env :: "(error + ustring) list \<Rightarrow> env" where
  "mock_env answers =
     \<lparr>create = scripted answers, write_error = (\<lambda>path res. None),
      strftime = ascii ''2025-01-01 00:00:00''\<rparr>"

definition default_system :: SEOContentSystem where
  "default_system = \<lparr>model = ascii ''qwen2.5:3b-instruct'', temperature = 0.7, top_p = 0.9\<rparr>"

definition world0 :: world where
  "world0 = \<lparr>calls = [], files = Map.empty\<rparr>"

text \<open>
  The script of a complete run: the answers to the keyword request (three lines, the
  third repeating the first), to the meta description request, to the title request (90
  characters) and to the summary request.
\<close>

definition scenario_env :: env where
  "scenario_env =
     mock_env
       [Inr (ascii ''1. electric bike'' @ [10] @ ascii ''- cycling'' @ [10] @ ascii ''electric bike''),
        Inr (ascii ''Buy the best bikes online''),
        Inr (ascii ''Electric Bicycles: The Complete Guide to Choosing, Riding and Maintaining Your New E-Bike!''),
        Inr (ascii ''  A short guide to electric bike models and cycling.  '')]"

text \<open>
  A script in which the third request, the title request of a run that synthesizes its
  keywords, meets an unreachable endpoint.
\<close>

definition scenario_D_env :: env where
  "scenario_D_env =
     mock_env
       [Inr (ascii ''1. electric bike'' @ [10] @ ascii ''- cycling'' @ [10] @ ascii ''electric bike''),
        Inr (ascii ''Buy the best bikes online''),
        Inl APIConnectionError]"

text \<open>
  A script for a run that does not synthesize keywords: the answers to the meta
  description, title and summary requests.
\<close>

definition scenario_C_env :: env where
  "scenario_C_env =
     mock_env
       [Inr (ascii ''Buy the best bikes online''),
        Inr (ascii ''Best bikes for the city''),
        Inr (ascii ''All about bikes.'')]"

text \<open>The same script on a file system that refuses every write.\<close>

definition unwritable_env :: env where
  "unwritable_env = scenario_C_env\<lparr>write_error := (\<lambda>path res. Some OSError)\<rparr>"

section \<open>Verification: the validator\<close>

lemma py_in_iff_sublist: "py_in xs ys \<longleftrightarrow> sublist xs ys"
  by (induction ys) (auto simp: sublist_Cons_right)

lemma missing_keywords_filter:
  "missing_keywords U txt (Some K) = filter (\<lambda>kw. \<not> sublist (lower U kw) (lower U txt)) K"
  by (cases K) (simp_all add: missing_keywords_def py_in_iff_sublist Let_def)

lemma scenario_C_missing:
  "missing_keywords basic_ucd (ascii ''Buy the best bikes online'') (Some [ascii ''bicycle''])
     = [ascii ''bicycle'']"
  by (simp add: missing_keywords_def basic_ucd_def lower_basic_char_def ascii_def)

text \<open>
  What the check computes, for every lower-casing table: \<open>ok_length\<close> compares the length
  with the maximum, and the missing list keeps, in order, the keywords whose lower-cased
  form is not a contiguous part of the lower-cased text.
\<close>

lemma check_field_computes:
  "ok_length (check_field U txt max_len (Some K)) = (int (length txt) \<le> max_len)
   \<and> missing_keywords_fc (check_field U txt max_len (Some K))
       = filter (\<lambda>kw. \<not> sublist (lower U kw) (lower U txt)) K"
  by (simp add: check_field_def missing_keywords_filter)

text \<open>
  Where lower-casing maps character by character, this is containment up to case: a
  keyword is kept as missing exactly when no contiguous part of the text has its
  lower-cased form.
\<close>

lemma sublist_map_iff:
  "sublist (map f kw) (map f txt) \<longleftrightarrow> (\<exists>s. sublist s txt \<and> map f s = map f kw)"
proof
  assume "sublist (map f kw) (map f txt)"
  then obtain a b where "map f txt = a @ (map f kw @ b)" by (auto simp: sublist_def)
  then have "\<exists>ps r. txt = ps @ r \<and> a = map f ps \<and> map f kw @ b = map f r"
    unfolding map_eq_append_conv .
  then obtain ps r where t: "txt = ps @ r" and "map f r = map f kw @ b" by auto
  then have "\<exists>s ss. r = s @ ss \<and> map f kw = map f s \<and> b = map f ss"
    unfolding map_eq_append_conv by simp
  then obtain s ss where r: "r = s @ ss" and e: "map f s = map f kw" by auto
  have "txt = ps @ s @ ss" using t r by simp
  then have "sublist s txt" unfolding sublist_def by blast
  with e show "\<exists>s. sublist s txt \<and> map f s = map f kw" by blast
next
  assume "\<exists>s. sublist s txt \<and> map f s = map f kw"
  then obtain s where "sublist s txt" and e: "map f s = map f kw" by blast
  then obtain ps ss where "txt = ps @ s @ ss" by (auto simp: sublist_def)
  then have "map f txt = map f ps @ map f kw @ map f ss" using e by simp
  then show "sublist (map f kw) (map f txt)" unfolding sublist_def by blast
qed

lemma missing_keywords_charwise:
  "lower U = map f \<Longrightarrow>
   missing_keywords U txt (Some K)
     = filter (\<lambda>kw. \<not> (\<exists>s. sublist s txt \<and> map f s = map f kw)) K"
  by (simp add: missing_keywords_filter sublist_map_iff)

text \<open>
  C5. The field check should report as missing exactly the required keywords that do
  not occur in the text up to case. \<open>missing_keywords\<close> compares \<open>kw.lower()\<close> with
  \<open>text.lower()\<close>, and \<open>str.lower()\<close> depends on the context of a letter: the keyword
  omicron-sigma (capitals) stands verbatim at the start of the text
  omicron-sigma-alpha, but its final sigma lowers differently from the medial sigma of
  the text, and the keyword is reported missing.
\<close>

theorem check_field_final_sigma:
  "sublist [927, 931] ([927, 931, 913] :: ustring)
   \<and> lower greek_ucd [927, 931] = [959, 962]
   \<and> lower greek_ucd [927, 931, 913] = [959, 963, 945]
   \<and> missing_keywords_fc (check_field greek_ucd [927, 931, 913] 150 (Some [[927, 931]]))
       = [[927, 931]]"
proof -
  have "[927, 931, 913] = [] @ [927, 931] @ [913::nat]" by simp
  then have a: "sublist [927, 931] [927, 931, 913::nat]" unfolding sublist_def by blast
  have b: "lower greek_ucd [927, 931] = [959, 962]"
    by (simp add: greek_ucd_def is_cased_letter_def lower_greek_char_def lower_basic_char_def)
  have c: "lower greek_ucd [927, 931, 913] = [959, 963, 945]"
    by (simp add: greek_ucd_def is_cased_letter_def lower_greek_char_def lower_basic_char_def)
  have d: "missing_keywords_fc (check_field greek_ucd [927, 931, 913] 150 (Some [[927, 931]]))
       = [[927, 931]]"
    by (simp add: check_field_def missing_keywords_def b c)
  from a b c d show ?thesis by simp
qed

section \<open>Verification: keyword synthesis\<close>

lemma dedup_append: "dedup U kws seen result = result @ dedup U kws seen []"
proof (induction kws arbitrary: seen result)
  case Nil
  show ?case by simp
next
  case (Cons kw kws)
  show ?case
    using Cons.IH [of "insert (lower U kw) seen" "result @ [kw]"]
          Cons.IH [of "insert (lower U kw) seen" "[kw]"]
          Cons.IH [of seen result]
    by (simp add: Let_def)
qed

lemma dedup_Cons:
  "dedup U (kw # kws) seen [] =
     (if lower U kw \<notin> seen then kw # dedup U kws (insert (lower U kw) seen) []
      else dedup U kws seen [])"
  using dedup_append [of U kws "insert (lower U kw) seen" "[kw]"] by (simp add: Let_def)





lemma dedup_complete:
  "x \<in> set kws \<Longrightarrow> lower U x \<in> seen \<or> lower U x \<in> lower U ` set (dedup U kws seen [])"
proof (induction kws arbitrary: seen)
  case Nil
  then show ?case by simp
next
  case (Cons kw kws)
  show ?case
  proof (cases "lower U kw \<in> seen")
    case True
    show ?thesis
    proof (cases "x = kw")
      case True
      with \<open>lower U kw \<in> seen\<close> show ?thesis by simp
    next
      case False
      with Cons.prems have "x \<in> set kws" by simp
      from Cons.IH [OF this, of seen] True show ?thesis
        by (simp add: dedup_Cons del: dedup.simps)
    qed
  next
    case False
    show ?thesis
    proof (cases "x = kw")
      case True
      with False show ?thesis by (simp add: dedup_Cons del: dedup.simps)
    next
      case xkw: False
      with Cons.prems have "x \<in> set kws" by simp
      from Cons.IH [OF this, of "insert (lower U kw) seen"] False show ?thesis
        by (auto simp add: dedup_Cons simp del: dedup.simps)
    qed
  qed
qed



text \<open>
  A negative bound is not a count: \<open>result[:-1]\<close> drops the last element, so the length
  bound is stated for \<open>n \<ge> 0\<close>.
\<close>

lemma slice_to_negative: "slice_to (- 1) [a, b] = [a]"
  by (simp add: slice_to_def)



lemmas eval_strings =
  ascii_def strip_def isspace_def splitlines_def is_linebreak_def

lemmas eval_chat =
  chat_def bind_io_def return_io_def py_or_def truthy_def mock_env_def scripted_def
  default_system_def world0_def



text \<open>
  C4. Every string of the returned keyword list should be non-empty. The filter
  \<open>if line.strip()\<close> is applied to the raw line, before the list markers are removed: a
  line that consists of markers only (here the separator "---") passes the filter and
  yields the empty keyword.
\<close>

theorem synthetic_keywords_marker_only_line:
  "fst (generate_synthetic_keywords basic_ucd
          (mock_env [Inr (ascii ''---'' @ [10] @ ascii ''1. bike'')])
          default_system (ascii ''bikes'') (ascii ''en'') 8 world0)
     = Inr [[], ascii ''bike'']"
  by (simp add: generate_synthetic_keywords_def keywords_prompt_def eval_chat eval_strings
        keyword_lines_def strip_markers_def is_marker_def basic_ucd_def lower_basic_char_def
        slice_to_def)





section \<open>Verification: the pipeline\<close>

lemma bind_io_Inr:
  "bind_io m f w = (Inr y, w') \<longleftrightarrow> (\<exists>x w1. m w = (Inr x, w1) \<and> f x w1 = (Inr y, w'))"
  by (cases "m w") (auto simp: bind_io_def split: sum.splits)

lemma bind_io_Inl:
  "bind_io m f w = (Inl e, w') \<longleftrightarrow>
     m w = (Inl e, w') \<or> (\<exists>x w1. m w = (Inr x, w1) \<and> f x w1 = (Inl e, w'))"
  by (cases "m w") (auto simp: bind_io_def split: sum.splits)

lemma return_io_eq: "return_io x w = (r, w') \<longleftrightarrow> r = Inr x \<and> w' = w"
  by (auto simp: return_io_def)

lemma length_strip: "length (strip s) \<le> length s"
proof -
  have "length (strip s) \<le> length (dropWhile isspace s)"
    unfolding strip_def using length_dropWhile_le [of isspace "rev (dropWhile isspace s)"] by simp
  also have "\<dots> \<le> length s" by (rule length_dropWhile_le)
  finally show ?thesis .
qed

lemma length_strip_take: "length (strip (take n s)) \<le> n"
  using length_strip [of "take n s"] by simp

lemma generate_title_Inr:
  "generate_title E self tp lang ko w = (Inr t, w') \<longleftrightarrow>
     (\<exists>txt. chat E self (model self) (fst (title_prompt tp lang ko)) (snd (title_prompt tp lang ko)) 60 w
              = (Inr txt, w') \<and> t = strip (take 60 txt))"
  by (cases "title_prompt tp lang ko")
     (auto simp: generate_title_def bind_io_Inr return_io_eq)

lemma generate_meta_description_Inr:
  "generate_meta_description E self tp lang ko w = (Inr t, w') \<longleftrightarrow>
     (\<exists>txt. chat E self (model self) (fst (meta_description_prompt tp lang ko))
               (snd (meta_description_prompt tp lang ko)) 120 w
              = (Inr txt, w') \<and> t = strip (take 150 txt))"
  by (cases "meta_description_prompt tp lang ko")
     (auto simp: generate_meta_description_def bind_io_Inr return_io_eq)

lemma generate_summary_Inr:
  "generate_summary E self tp lang ko w = (Inr t, w') \<longleftrightarrow>
     (\<exists>txt. chat E self (model self) (fst (summary_prompt tp lang ko)) (snd (summary_prompt tp lang ko)) 180 w
              = (Inr txt, w') \<and> t = strip (take 300 txt))"
  by (cases "summary_prompt tp lang ko")
     (auto simp: generate_summary_def bind_io_Inr return_io_eq)

lemma resolve_keywords_code:
  "(if (case ko of None \<Rightarrow> [] | Some ks \<Rightarrow> if ks \<noteq> [] then ks else []) = [] \<and> synth
    then generate_synthetic_keywords U E self tp lang 8
    else return_io (case ko of None \<Rightarrow> [] | Some ks \<Rightarrow> if ks \<noteq> [] then ks else []))
   = resolve_keywords U E self tp lang ko synth"
  by (cases ko) (auto simp: resolve_keywords_def)

lemma run_unfold:
  "run U E self tp lo ko synth out =
     bind_io (resolve_keywords U E self tp (resolved_language U tp lo) ko synth) (\<lambda>kws.
     bind_io (generate_meta_description E self tp (resolved_language U tp lo) (Some kws)) (\<lambda>meta.
     bind_io (generate_title E self tp (resolved_language U tp lo) (Some kws)) (\<lambda>ttl.
     bind_io (generate_summary E self tp (resolved_language U tp lo) (Some kws)) (\<lambda>summ.
     bind_io (if truthy out
              then dump_json E (the out)
                     (assemble U E self tp (resolved_language U tp lo) kws meta ttl summ)
              else return_io ()) (\<lambda>_.
     return_io (assemble U E self tp (resolved_language U tp lo) kws meta ttl summ))))))"
  unfolding run_def Let_def resolve_keywords_code resolved_language_def assemble_def ..

lemma run_Inr:
  "run U E self tp lo ko synth out w = (Inr res, w') \<longleftrightarrow>
     (\<exists>kws meta ttl summ w1 w2 w3 w4.
        resolve_keywords U E self tp (resolved_language U tp lo) ko synth w = (Inr kws, w1)
      \<and> generate_meta_description E self tp (resolved_language U tp lo) (Some kws) w1 = (Inr meta, w2)
      \<and> generate_title E self tp (resolved_language U tp lo) (Some kws) w2 = (Inr ttl, w3)
      \<and> generate_summary E self tp (resolved_language U tp lo) (Some kws) w3 = (Inr summ, w4)
      \<and> res = assemble U E self tp (resolved_language U tp lo) kws meta ttl summ
      \<and> (if truthy out then dump_json E (the out) res else return_io ()) w4 = (Inr (), w'))"
  unfolding run_unfold bind_io_Inr return_io_eq [of _ _ "Inr res"]
  by (simp split del: if_split) blast

section \<open>Verification: trimming and truncation\<close>

lemma strip_id:
  assumes "xs \<noteq> []" "\<not> isspace (hd xs)" "\<not> isspace (last xs)"
  shows "strip xs = xs"
proof -
  from assms have d: "dropWhile isspace xs = xs" by (cases xs) auto
  from assms have "rev xs \<noteq> []" "\<not> isspace (hd (rev xs))" by (simp_all add: hd_rev)
  then have "dropWhile isspace (rev xs) = rev xs" by (cases "rev xs") auto
  with d show ?thesis by (simp add: strip_def)
qed

lemma strip_prefix_dropWhile:
  "dropWhile isspace s = strip s @ rev (takeWhile isspace (rev (dropWhile isspace s)))"
proof -
  let ?d = "dropWhile isspace s"
  have "strip s @ rev (takeWhile isspace (rev ?d))
      = rev (takeWhile isspace (rev ?d) @ dropWhile isspace (rev ?d))"
    unfolding strip_def rev_append ..
  also have "\<dots> = rev (rev ?d)"
    unfolding takeWhile_dropWhile_id ..
  finally show ?thesis by simp
qed

lemma strip_hd: "strip s \<noteq> [] \<Longrightarrow> \<not> isspace (hd (strip s))"
proof -
  assume n: "strip s \<noteq> []"
  have "hd (dropWhile isspace s) = hd (strip s)"
    using strip_prefix_dropWhile [of s] n by (metis hd_append2)
  moreover have "dropWhile isspace s \<noteq> []"
    using strip_prefix_dropWhile [of s] n by (metis append_is_Nil_conv)
  ultimately show ?thesis using hd_dropWhile [of isspace s] by simp
qed

lemma strip_last: "strip s \<noteq> [] \<Longrightarrow> \<not> isspace (last (strip s))"
proof -
  assume n: "strip s \<noteq> []"
  then have "dropWhile isspace (rev (dropWhile isspace s)) \<noteq> []" by (simp add: strip_def)
  from hd_dropWhile [OF this] show ?thesis
    using n by (simp add: strip_def last_rev)
qed

lemma strip_length_eq: "length (strip xs) = length xs \<longleftrightarrow> strip xs = xs"
proof
  assume l: "length (strip xs) = length xs"
  have a: "length (strip xs) \<le> length (dropWhile isspace xs)"
    unfolding strip_def using length_dropWhile_le [of isspace "rev (dropWhile isspace xs)"] by simp
  have b: "length (dropWhile isspace xs) \<le> length xs" by (rule length_dropWhile_le)
  from l a b have "length (dropWhile isspace xs) = length xs" by simp
  then have d: "dropWhile isspace xs = xs"
    by (metis append_eq_conv_conj append_self_conv2 length_append add_cancel_left_left
          length_0_conv takeWhile_dropWhile_id)
  from l a d have "length (rev (takeWhile isspace (rev (dropWhile isspace xs)))) = 0"
    using strip_prefix_dropWhile [of xs] by (metis add_diff_cancel_left' diff_is_0_eq' length_append le_refl)
  then show "strip xs = xs" using strip_prefix_dropWhile [of xs] d by simp
qed simp

lemma strip_take_exact:
  "length (strip (take 60 (strip s))) = 60 \<longleftrightarrow> 60 \<le> length (strip s) \<and> \<not> isspace (strip s ! 59)"
proof
  assume l: "length (strip (take 60 (strip s))) = 60"
  have "length (strip (take 60 (strip s))) \<le> length (take 60 (strip s))" by (rule length_strip)
  with l have g: "60 \<le> length (strip s)" by simp
  then have lt: "length (take 60 (strip s)) = 60" by simp
  with l have "strip (take 60 (strip s)) = take 60 (strip s)" by (simp add: strip_length_eq [symmetric])
  moreover from lt have ne: "take 60 (strip s) \<noteq> []" by auto
  ultimately have "\<not> isspace (last (take 60 (strip s)))"
    using strip_last [of "take 60 (strip s)"] by simp
  moreover have "last (take 60 (strip s)) = strip s ! 59"
    using g ne lt by (simp add: last_conv_nth)
  ultimately show "60 \<le> length (strip s) \<and> \<not> isspace (strip s ! 59)" using g by simp
next
  assume a: "60 \<le> length (strip s) \<and> \<not> isspace (strip s ! 59)"
  then have lt: "length (take 60 (strip s)) = 60" by simp
  then have ne: "take 60 (strip s) \<noteq> []" by auto
  have la: "last (take 60 (strip s)) = strip s ! 59"
    using a ne lt by (simp add: last_conv_nth)
  have "strip s \<noteq> []" using a by auto
  then have "\<not> isspace (hd (strip s))" by (rule strip_hd)
  moreover have "hd (take 60 (strip s)) = hd (strip s)" by simp
  ultimately have "strip (take 60 (strip s)) = take 60 (strip s)"
    using strip_id [OF ne] la a by simp
  with lt show "length (strip (take 60 (strip s))) = 60" by simp
qed

section \<open>Verification: field lengths\<close>

lemma checks_assemble:
  "checks (assemble U E self tp lang kws meta ttl summ) (ascii ''meta_description'')
     = Some (check_field U meta 150 (Some kws))"
  "checks (assemble U E self tp lang kws meta ttl summ) (ascii ''title'')
     = Some (check_field U ttl 60 (Some kws))"
  "checks (assemble U E self tp lang kws meta ttl summ) (ascii ''summary'')
     = Some (check_field U summ 300 (Some kws))"
  by (simp_all add: assemble_def ascii_def)

lemma fields_assemble:
  "topic (assemble U E self tp lang kws meta ttl summ) = tp"
  "language (assemble U E self tp lang kws meta ttl summ) = lang"
  "keywords (assemble U E self tp lang kws meta ttl summ) = kws"
  "meta_description (assemble U E self tp lang kws meta ttl summ) = meta"
  "title (assemble U E self tp lang kws meta ttl summ) = ttl"
  "summary (assemble U E self tp lang kws meta ttl summ) = summ"
  "model_used (assemble U E self tp lang kws meta ttl summ) = model self"
  "timestamp (assemble U E self tp lang kws meta ttl summ) = strftime E"
  by (simp_all add: assemble_def)

lemma check_field_simps:
  "length_fc (check_field U txt m ko) = length txt"
  "max_allowed (check_field U txt m ko) = m"
  "ok_length (check_field U txt m ko) = (int (length txt) \<le> m)"
  "missing_keywords_fc (check_field U txt m ko) = missing_keywords U txt ko"
  by (simp_all add: check_field_def)

text \<open>
  C1. In every result that a run returns, whatever the completion service answered, the
  title has at most 60 characters, the meta description at most 150 and the summary at
  most 300; the check recorded for each field has \<open>ok_length\<close> true, and its maximum is
  the same constant the generator cut the text to.
\<close>

theorem run_field_lengths:
  "run U E self tp lo ko synth out w = (Inr res, w') \<longrightarrow>
     length (title res) \<le> 60 \<and> length (meta_description res) \<le> 150 \<and> length (summary res) \<le> 300
   \<and> (\<exists>c. checks res (ascii ''title'') = Some c \<and> ok_length c \<and> max_allowed c = 60
            \<and> length_fc c = length (title res))
   \<and> (\<exists>c. checks res (ascii ''meta_description'') = Some c \<and> ok_length c \<and> max_allowed c = 150
            \<and> length_fc c = length (meta_description res))
   \<and> (\<exists>c. checks res (ascii ''summary'') = Some c \<and> ok_length c \<and> max_allowed c = 300
            \<and> length_fc c = length (summary res))"
proof
  assume "run U E self tp lo ko synth out w = (Inr res, w')"
  then obtain kws meta ttl summ w1 w2 w3 w4 where
      m: "generate_meta_description E self tp (resolved_language U tp lo) (Some kws) w1 = (Inr meta, w2)"
  and t: "generate_title E self tp (resolved_language U tp lo) (Some kws) w2 = (Inr ttl, w3)"
  and s: "generate_summary E self tp (resolved_language U tp lo) (Some kws) w3 = (Inr summ, w4)"
  and r: "res = assemble U E self tp (resolved_language U tp lo) kws meta ttl summ"
    unfolding run_Inr by blast
  from m have lm: "length meta \<le> 150"
    unfolding generate_meta_description_Inr using length_strip_take by blast
  from t have lt: "length ttl \<le> 60"
    unfolding generate_title_Inr using length_strip_take by blast
  from s have ls: "length summ \<le> 300"
    unfolding generate_summary_Inr using length_strip_take by blast
  from lm lt ls show
    "length (title res) \<le> 60 \<and> length (meta_description res) \<le> 150 \<and> length (summary res) \<le> 300
   \<and> (\<exists>c. checks res (ascii ''title'') = Some c \<and> ok_length c \<and> max_allowed c = 60
            \<and> length_fc c = length (title res))
   \<and> (\<exists>c. checks res (ascii ''meta_description'') = Some c \<and> ok_length c \<and> max_allowed c = 150
            \<and> length_fc c = length (meta_description res))
   \<and> (\<exists>c. checks res (ascii ''summary'') = Some c \<and> ok_length c \<and> max_allowed c = 300
            \<and> length_fc c = length (summary res))"
    unfolding r by (simp add: checks_assemble fields_assemble check_field_simps)
qed


lemma chat_content:
  assumes "create E (calls w)
             \<lparr>req_model = mdl, req_system = sys, req_user = usr,
              req_temperature = temperature self, req_top_p = top_p self,
              req_max_tokens = mt\<rparr> = Inr (c # cs)"
    and "msg_content c = Some s" and "s \<noteq> []"
  shows "chat E self mdl sys usr mt w
           = (Inr (strip s),
              w\<lparr>calls := calls w @
                 [\<lparr>req_model = mdl, req_system = sys, req_user = usr,
                   req_temperature = temperature self, req_top_p = top_p self,
                   req_max_tokens = mt\<rparr>]\<rparr>)"
  using assms by (simp add: chat_def Let_def py_or_def truthy_def)

text \<open>
  C8 (amended). When the service answers the title request with a 90-character text,
  the title is that text trimmed, cut to its first 60 characters and trimmed again. It
  has at most 60 characters and its length check passes; it has exactly 60 characters
  if and only if the trimmed answer has at least 60 characters and its 60th character is
  not whitespace.
\<close>

theorem generate_title_90:
  "create E (calls w)
       \<lparr>req_model = model self, req_system = fst (title_prompt tp lang ko),
        req_user = snd (title_prompt tp lang ko), req_temperature = temperature self,
        req_top_p = top_p self, req_max_tokens = 60\<rparr> = Inr (c # cs)
     \<and> msg_content c = Some s \<and> length s = 90 \<longrightarrow>
   (\<exists>w'. generate_title E self tp lang ko w = (Inr (strip (take 60 (strip s))), w'))
   \<and> length (strip (take 60 (strip s))) \<le> 60
   \<and> ok_length (check_field U (strip (take 60 (strip s))) 60 kso)
   \<and> (length (strip (take 60 (strip s))) = 60
        \<longleftrightarrow> 60 \<le> length (strip s) \<and> \<not> isspace (strip s ! 59))"
proof
  assume a: "create E (calls w)
       \<lparr>req_model = model self, req_system = fst (title_prompt tp lang ko),
        req_user = snd (title_prompt tp lang ko), req_temperature = temperature self,
        req_top_p = top_p self, req_max_tokens = 60\<rparr> = Inr (c # cs)
     \<and> msg_content c = Some s \<and> length s = 90"
  then have ne: "s \<noteq> []" by auto
  from a have g: "\<exists>w'. generate_title E self tp lang ko w = (Inr (strip (take 60 (strip s))), w')"
    unfolding generate_title_Inr using chat_content [OF _ _ ne] by blast
  have l: "length (strip (take 60 (strip s))) \<le> 60" by (rule length_strip_take)
  then have k: "ok_length (check_field U (strip (take 60 (strip s))) 60 kso)"
    by (simp add: check_field_simps)
  from g l k strip_take_exact [of s]
  show "(\<exists>w'. generate_title E self tp lang ko w = (Inr (strip (take 60 (strip s))), w'))
   \<and> length (strip (take 60 (strip s))) \<le> 60
   \<and> ok_length (check_field U (strip (take 60 (strip s))) 60 kso)
   \<and> (length (strip (take 60 (strip s))) = 60
        \<longleftrightarrow> 60 \<le> length (strip s) \<and> \<not> isspace (strip s ! 59))"
    by blast
qed

lemma title_90_eval:
  "strip (take 60 (strip (ascii ''Electric Bicycles: The Complete Guide to Choosing, Riding and Maintaining Your New E-Bike!''))) = ascii ''Electric Bicycles: The Complete Guide to Choosing, Riding an''"
  by (simp add: eval_strings)

theorem generate_title_90_witness:
  "create (mock_env [Inr (ascii ''Electric Bicycles: The Complete Guide to Choosing, Riding and Maintaining Your New E-Bike!'')]) (calls world0)
       \<lparr>req_model = model default_system,
        req_system = fst (title_prompt (ascii ''electric bicycles'') (ascii ''en'') (Some [])),
        req_user = snd (title_prompt (ascii ''electric bicycles'') (ascii ''en'') (Some [])),
        req_temperature = temperature default_system,
        req_top_p = top_p default_system, req_max_tokens = 60\<rparr>
     = Inr [\<lparr>msg_content = Some (ascii ''Electric Bicycles: The Complete Guide to Choosing, Riding and Maintaining Your New E-Bike!''), msg_reasoning_content = None,
              choice_text = None\<rparr>]
   \<and> length (ascii ''Electric Bicycles: The Complete Guide to Choosing, Riding and Maintaining Your New E-Bike!'') = 90
   \<and> fst (generate_title (mock_env [Inr (ascii ''Electric Bicycles: The Complete Guide to Choosing, Riding and Maintaining Your New E-Bike!'')]) default_system
            (ascii ''electric bicycles'') (ascii ''en'') (Some []) world0)
       = Inr (ascii ''Electric Bicycles: The Complete Guide to Choosing, Riding an'')
   \<and> length (ascii ''Electric Bicycles: The Complete Guide to Choosing, Riding an'') = 60
   \<and> ok_length (check_field basic_ucd (ascii ''Electric Bicycles: The Complete Guide to Choosing, Riding an'') 60 (Some []))"
proof -
  let ?s = "ascii ''Electric Bicycles: The Complete Guide to Choosing, Riding and Maintaining Your New E-Bike!''"
  let ?E = "mock_env [Inr ?s]"
  let ?c = "\<lparr>msg_content = Some ?s, msg_reasoning_content = None, choice_text = None\<rparr>"
  have a: "create ?E (calls world0)
       \<lparr>req_model = model default_system,
        req_system = fst (title_prompt (ascii ''electric bicycles'') (ascii ''en'') (Some [])),
        req_user = snd (title_prompt (ascii ''electric bicycles'') (ascii ''en'') (Some [])),
        req_temperature = temperature default_system,
        req_top_p = top_p default_system, req_max_tokens = 60\<rparr> = Inr (?c # [])"
    by (simp add: mock_env_def scripted_def world0_def)
  have b: "msg_content ?c = Some ?s" by simp
  have l: "length ?s = 90" by (simp add: ascii_def)
  from generate_title_90 [of ?E world0 default_system "ascii ''electric bicycles''" "ascii ''en''"
         "Some []" ?c "[]" ?s basic_ucd "Some []"] a b l
  have "(\<exists>w'. generate_title ?E default_system (ascii ''electric bicycles'') (ascii ''en'')
                (Some []) world0 = (Inr (strip (take 60 (strip ?s))), w'))
      \<and> ok_length (check_field basic_ucd (strip (take 60 (strip ?s))) 60 (Some []))"
    by blast
  then have "fst (generate_title ?E default_system (ascii ''electric bicycles'') (ascii ''en'')
                (Some []) world0) = Inr (ascii ''Electric Bicycles: The Complete Guide to Choosing, Riding an'')
      \<and> ok_length (check_field basic_ucd (ascii ''Electric Bicycles: The Complete Guide to Choosing, Riding an'') 60 (Some []))"
    unfolding title_90_eval by auto
  moreover have "length (ascii ''Electric Bicycles: The Complete Guide to Choosing, Riding an'') = 60" by (simp add: ascii_def)
  ultimately show ?thesis using a l by simp
qed

text \<open>
  C8 as stated fails: this 90-character answer has a space as its 60th character, so
  the cut leaves a trailing space, the second trim removes it, and the title has 59
  characters.
\<close>

theorem generate_title_90_counterexample:
  "length (ascii ''Electric Bicycles Explained How to Choose the Best Commuter Bike for City Streets and Hill'') = 90
   \<and> fst (generate_title (mock_env [Inr (ascii ''Electric Bicycles Explained How to Choose the Best Commuter Bike for City Streets and Hill'')]) default_system
            (ascii ''electric bicycles'') (ascii ''en'') (Some []) world0)
       = Inr (ascii ''Electric Bicycles Explained How to Choose the Best Commuter'')
   \<and> length (ascii ''Electric Bicycles Explained How to Choose the Best Commuter'') = 59"
  by (simp add: generate_title_def title_prompt_def keyword_clause_def eval_chat eval_strings)


lemma scenario_run_eval:
  "fst (run basic_ucd scenario_env default_system (ascii ''electric bicycles'') None None True None
          world0)
     = Inr (assemble basic_ucd scenario_env default_system (ascii ''electric bicycles'')
              (ascii ''en'') [ascii ''electric bike'', ascii ''cycling'']
              (ascii ''Buy the best bikes online'')
              (ascii ''Electric Bicycles: The Complete Guide to Choosing, Riding an'')
              (ascii ''A short guide to electric bike models and cycling.''))"
  by (simp add: run_unfold resolved_language_def resolve_keywords_def detect_language_def
        is_cyr_def is_lat_def
        generate_synthetic_keywords_def keywords_prompt_def
        generate_meta_description_def meta_description_prompt_def
        generate_title_def title_prompt_def generate_summary_def summary_prompt_def
        keyword_clause_def scenario_env_def eval_chat eval_strings
        keyword_lines_def strip_markers_def is_marker_def basic_ucd_def lower_basic_char_def
        slice_to_def str_int_def digits.simps)


theorem run_field_lengths_witness:
  "fst (run basic_ucd scenario_env default_system (ascii ''electric bicycles'') None None True None
          world0)
     = Inr (assemble basic_ucd scenario_env default_system (ascii ''electric bicycles'')
              (ascii ''en'') [ascii ''electric bike'', ascii ''cycling'']
              (ascii ''Buy the best bikes online'')
              (ascii ''Electric Bicycles: The Complete Guide to Choosing, Riding an'')
              (ascii ''A short guide to electric bike models and cycling.''))
   \<and> length (title (assemble basic_ucd scenario_env default_system (ascii ''electric bicycles'')
              (ascii ''en'') [ascii ''electric bike'', ascii ''cycling'']
              (ascii ''Buy the best bikes online'')
              (ascii ''Electric Bicycles: The Complete Guide to Choosing, Riding an'')
              (ascii ''A short guide to electric bike models and cycling.''))) \<le> 60
   \<and> length (meta_description (assemble basic_ucd scenario_env default_system (ascii ''electric bicycles'')
              (ascii ''en'') [ascii ''electric bike'', ascii ''cycling'']
              (ascii ''Buy the best bikes online'')
              (ascii ''Electric Bicycles: The Complete Guide to Choosing, Riding an'')
              (ascii ''A short guide to electric bike models and cycling.''))) \<le> 150
   \<and> length (summary (assemble basic_ucd scenario_env default_system (ascii ''electric bicycles'')
              (ascii ''en'') [ascii ''electric bike'', ascii ''cycling'']
              (ascii ''Buy the best bikes online'')
              (ascii ''Electric Bicycles: The Complete Guide to Choosing, Riding an'')
              (ascii ''A short guide to electric bike models and cycling.''))) \<le> 300
   \<and> (\<exists>c. checks (assemble basic_ucd scenario_env default_system (ascii ''electric bicycles'')
              (ascii ''en'') [ascii ''electric bike'', ascii ''cycling'']
              (ascii ''Buy the best bikes online'')
              (ascii ''Electric Bicycles: The Complete Guide to Choosing, Riding an'')
              (ascii ''A short guide to electric bike models and cycling.'')) (ascii ''title'') = Some c \<and> ok_length c \<and> max_allowed c = 60)
   \<and> (\<exists>c. checks (assemble basic_ucd scenario_env default_system (ascii ''electric bicycles'')
              (ascii ''en'') [ascii ''electric bike'', ascii ''cycling'']
              (ascii ''Buy the best bikes online'')
              (ascii ''Electric Bicycles: The Complete Guide to Choosing, Riding an'')
              (ascii ''A short guide to electric bike models and cycling.'')) (ascii ''meta_description'') = Some c \<and> ok_length c \<and> max_allowed c = 150)
   \<and> (\<exists>c. checks (assemble basic_ucd scenario_env default_system (ascii ''electric bicycles'')
              (ascii ''en'') [ascii ''electric bike'', ascii ''cycling'']
              (ascii ''Buy the best bikes online'')
              (ascii ''Electric Bicycles: The Complete Guide to Choosing, Riding an'')
              (ascii ''A short guide to electric bike models and cycling.'')) (ascii ''summary'') = Some c \<and> ok_length c \<and> max_allowed c = 300)"
proof -
  let ?run = "run basic_ucd scenario_env default_system (ascii ''electric bicycles'') None None
                True None world0"
  let ?R = "(assemble basic_ucd scenario_env default_system (ascii ''electric bicycles'')
              (ascii ''en'') [ascii ''electric bike'', ascii ''cycling'']
              (ascii ''Buy the best bikes online'')
              (ascii ''Electric Bicycles: The Complete Guide to Choosing, Riding an'')
              (ascii ''A short guide to electric bike models and cycling.''))"
  have e: "?run = (Inr ?R, snd ?run)"
    using scenario_run_eval by (metis prod.collapse)
  from run_field_lengths [of basic_ucd scenario_env default_system "ascii ''electric bicycles''"
         None None True None world0 ?R "snd ?run"] e scenario_run_eval
  show ?thesis by blast
qed

section \<open>Verification: requests and errors\<close>

lemma chat_world:
  "snd (chat E self (model self) (fst p) (snd p) mt w)
     = w\<lparr>calls := calls w @ [request_of self p mt]\<rparr>"
  by (simp add: chat_def Let_def request_of_def split: sum.splits list.splits)

lemma chat_error:
  "create E (calls w) (request_of self p mt) = Inl e \<Longrightarrow>
   chat E self (model self) (fst p) (snd p) mt w
     = (Inl e, w\<lparr>calls := calls w @ [request_of self p mt]\<rparr>)"
  by (simp add: chat_def Let_def request_of_def)

lemma generate_meta_description_world:
  "snd (generate_meta_description E self tp lang ko w)
     = w\<lparr>calls := calls w @ [request_of self (meta_description_prompt tp lang ko) 120]\<rparr>"
  using chat_world [of E self "meta_description_prompt tp lang ko" 120 w]
  by (cases "meta_description_prompt tp lang ko";
      cases "chat E self (model self) (fst (meta_description_prompt tp lang ko))
               (snd (meta_description_prompt tp lang ko)) 120 w")
     (auto simp: generate_meta_description_def bind_io_def return_io_def split: sum.splits)

lemma generate_title_world:
  "snd (generate_title E self tp lang ko w)
     = w\<lparr>calls := calls w @ [request_of self (title_prompt tp lang ko) 60]\<rparr>"
  using chat_world [of E self "title_prompt tp lang ko" 60 w]
  by (cases "title_prompt tp lang ko";
      cases "chat E self (model self) (fst (title_prompt tp lang ko))
               (snd (title_prompt tp lang ko)) 60 w")
     (auto simp: generate_title_def bind_io_def return_io_def split: sum.splits)

lemma generate_summary_world:
  "snd (generate_summary E self tp lang ko w)
     = w\<lparr>calls := calls w @ [request_of self (summary_prompt tp lang ko) 180]\<rparr>"
  using chat_world [of E self "summary_prompt tp lang ko" 180 w]
  by (cases "summary_prompt tp lang ko";
      cases "chat E self (model self) (fst (summary_prompt tp lang ko))
               (snd (summary_prompt tp lang ko)) 180 w")
     (auto simp: generate_summary_def bind_io_def return_io_def split: sum.splits)

lemma generate_synthetic_keywords_world:
  "snd (generate_synthetic_keywords U E self tp lang n w)
     = w\<lparr>calls := calls w @ [request_of self (keywords_prompt lang n tp) 200]\<rparr>"
  using chat_world [of E self "keywords_prompt lang n tp" 200 w]
  by (cases "keywords_prompt lang n tp";
      cases "chat E self (model self) (fst (keywords_prompt lang n tp))
               (snd (keywords_prompt lang n tp)) 200 w")
     (auto simp: generate_synthetic_keywords_def bind_io_def return_io_def split: sum.splits)

lemma generate_meta_description_error:
  "create E (calls w) (request_of self (meta_description_prompt tp lang ko) 120) = Inl e \<Longrightarrow>
   generate_meta_description E self tp lang ko w
     = (Inl e, w\<lparr>calls := calls w @ [request_of self (meta_description_prompt tp lang ko) 120]\<rparr>)"
  using chat_error [of E w self "meta_description_prompt tp lang ko" 120 e]
  by (cases "meta_description_prompt tp lang ko")
     (simp add: generate_meta_description_def bind_io_def)

lemma generate_title_error:
  "create E (calls w) (request_of self (title_prompt tp lang ko) 60) = Inl e \<Longrightarrow>
   generate_title E self tp lang ko w
     = (Inl e, w\<lparr>calls := calls w @ [request_of self (title_prompt tp lang ko) 60]\<rparr>)"
  using chat_error [of E w self "title_prompt tp lang ko" 60 e]
  by (cases "title_prompt tp lang ko")
     (simp add: generate_title_def bind_io_def)

lemma generate_summary_error:
  "create E (calls w) (request_of self (summary_prompt tp lang ko) 180) = Inl e \<Longrightarrow>
   generate_summary E self tp lang ko w
     = (Inl e, w\<lparr>calls := calls w @ [request_of self (summary_prompt tp lang ko) 180]\<rparr>)"
  using chat_error [of E w self "summary_prompt tp lang ko" 180 e]
  by (cases "summary_prompt tp lang ko")
     (simp add: generate_summary_def bind_io_def)

lemma generate_synthetic_keywords_error:
  "create E (calls w) (request_of self (keywords_prompt lang n tp) 200) = Inl e \<Longrightarrow>
   generate_synthetic_keywords U E self tp lang n w
     = (Inl e, w\<lparr>calls := calls w @ [request_of self (keywords_prompt lang n tp) 200]\<rparr>)"
  using chat_error [of E w self "keywords_prompt lang n tp" 200 e]
  by (cases "keywords_prompt lang n tp")
     (simp add: generate_synthetic_keywords_def bind_io_def)

section \<open>Verification: service failures\<close>

lemma run_abort_keywords:
  "resolve_keywords U E self tp (resolved_language U tp lo) ko synth w = (Inl e, w1) \<Longrightarrow>
   run U E self tp lo ko synth out w = (Inl e, w1)"
  by (simp add: run_unfold bind_io_def)

lemma run_abort_meta:
  "resolve_keywords U E self tp (resolved_language U tp lo) ko synth w = (Inr kws, w1) \<Longrightarrow>
   generate_meta_description E self tp (resolved_language U tp lo) (Some kws) w1 = (Inl e, w2) \<Longrightarrow>
   run U E self tp lo ko synth out w = (Inl e, w2)"
  by (simp add: run_unfold bind_io_def)

lemma run_abort_title:
  "resolve_keywords U E self tp (resolved_language U tp lo) ko synth w = (Inr kws, w1) \<Longrightarrow>
   generate_meta_description E self tp (resolved_language U tp lo) (Some kws) w1 = (Inr meta, w2) \<Longrightarrow>
   generate_title E self tp (resolved_language U tp lo) (Some kws) w2 = (Inl e, w3) \<Longrightarrow>
   run U E self tp lo ko synth out w = (Inl e, w3)"
  by (simp add: run_unfold bind_io_def)

lemma run_abort_summary:
  "resolve_keywords U E self tp (resolved_language U tp lo) ko synth w = (Inr kws, w1) \<Longrightarrow>
   generate_meta_description E self tp (resolved_language U tp lo) (Some kws) w1 = (Inr meta, w2) \<Longrightarrow>
   generate_title E self tp (resolved_language U tp lo) (Some kws) w2 = (Inr ttl, w3) \<Longrightarrow>
   generate_summary E self tp (resolved_language U tp lo) (Some kws) w3 = (Inl e, w4) \<Longrightarrow>
   run U E self tp lo ko synth out w = (Inl e, w4)"
  by (simp add: run_unfold bind_io_def)

lemma resolve_keywords_synth:
  "\<not> (\<exists>ks. ko = Some ks \<and> ks \<noteq> []) \<Longrightarrow> synth \<Longrightarrow>
   resolve_keywords U E self tp lang ko synth = generate_synthetic_keywords U E self tp lang 8"
  by (cases ko) (auto simp: resolve_keywords_def)

text \<open>
  C7. If the completion service raises an error (a connection failure in particular)
  at the request of any generative step (keyword synthesis, meta description, title,
  summary), the run ends there with that same error and no result; the failing request
  is the last one in the log of requests, so it is not sent again and no later step
  runs.
\<close>

theorem run_aborts_on_service_error:
  "(\<not> (\<exists>ks. ko = Some ks \<and> ks \<noteq> []) \<and> synth
      \<and> create E (calls w)
           (request_of self (keywords_prompt (resolved_language U tp lo) 8 tp) 200) = Inl e
    \<longrightarrow> run U E self tp lo ko synth out w
          = (Inl e, w\<lparr>calls := calls w @
               [request_of self (keywords_prompt (resolved_language U tp lo) 8 tp) 200]\<rparr>))
   \<and> (resolve_keywords U E self tp (resolved_language U tp lo) ko synth w = (Inr kws, w1)
      \<and> create E (calls w1)
           (request_of self
              (meta_description_prompt tp (resolved_language U tp lo) (Some kws)) 120) = Inl e
    \<longrightarrow> run U E self tp lo ko synth out w
          = (Inl e, w1\<lparr>calls := calls w1 @
               [request_of self
                  (meta_description_prompt tp (resolved_language U tp lo) (Some kws)) 120]\<rparr>))
   \<and> (resolve_keywords U E self tp (resolved_language U tp lo) ko synth w = (Inr kws, w1)
      \<and> generate_meta_description E self tp (resolved_language U tp lo) (Some kws) w1
          = (Inr meta, w2)
      \<and> create E (calls w2)
           (request_of self (title_prompt tp (resolved_language U tp lo) (Some kws)) 60) = Inl e
    \<longrightarrow> run U E self tp lo ko synth out w
          = (Inl e, w2\<lparr>calls := calls w2 @
               [request_of self (title_prompt tp (resolved_language U tp lo) (Some kws)) 60]\<rparr>))
   \<and> (resolve_keywords U E self tp (resolved_language U tp lo) ko synth w = (Inr kws, w1)
      \<and> generate_meta_description E self tp (resolved_language U tp lo) (Some kws) w1
          = (Inr meta, w2)
      \<and> generate_title E self tp (resolved_language U tp lo) (Some kws) w2 = (Inr ttl, w3)
      \<and> create E (calls w3)
           (request_of self (summary_prompt tp (resolved_language U tp lo) (Some kws)) 180) = Inl e
    \<longrightarrow> run U E self tp lo ko synth out w
          = (Inl e, w3\<lparr>calls := calls w3 @
               [request_of self (summary_prompt tp (resolved_language U tp lo) (Some kws)) 180]\<rparr>))"
proof (intro conjI impI)
  assume a: "\<not> (\<exists>ks. ko = Some ks \<and> ks \<noteq> []) \<and> synth
      \<and> create E (calls w)
           (request_of self (keywords_prompt (resolved_language U tp lo) 8 tp) 200) = Inl e"
  then have "resolve_keywords U E self tp (resolved_language U tp lo) ko synth w
      = (Inl e, w\<lparr>calls := calls w @
               [request_of self (keywords_prompt (resolved_language U tp lo) 8 tp) 200]\<rparr>)"
    by (simp add: resolve_keywords_synth generate_synthetic_keywords_error)
  then show "run U E self tp lo ko synth out w
          = (Inl e, w\<lparr>calls := calls w @
               [request_of self (keywords_prompt (resolved_language U tp lo) 8 tp) 200]\<rparr>)"
    by (rule run_abort_keywords)
next
  assume a: "resolve_keywords U E self tp (resolved_language U tp lo) ko synth w = (Inr kws, w1)
      \<and> create E (calls w1)
           (request_of self
              (meta_description_prompt tp (resolved_language U tp lo) (Some kws)) 120) = Inl e"
  then have r: "resolve_keywords U E self tp (resolved_language U tp lo) ko synth w = (Inr kws, w1)"
    and c: "create E (calls w1)
           (request_of self
              (meta_description_prompt tp (resolved_language U tp lo) (Some kws)) 120) = Inl e"
    by simp_all
  from run_abort_meta [OF r generate_meta_description_error [OF c]]
  show "run U E self tp lo ko synth out w
          = (Inl e, w1\<lparr>calls := calls w1 @
               [request_of self
                  (meta_description_prompt tp (resolved_language U tp lo) (Some kws)) 120]\<rparr>)" .
next
  assume a: "resolve_keywords U E self tp (resolved_language U tp lo) ko synth w = (Inr kws, w1)
      \<and> generate_meta_description E self tp (resolved_language U tp lo) (Some kws) w1
          = (Inr meta, w2)
      \<and> create E (calls w2)
           (request_of self (title_prompt tp (resolved_language U tp lo) (Some kws)) 60) = Inl e"
  then have r: "resolve_keywords U E self tp (resolved_language U tp lo) ko synth w = (Inr kws, w1)"
    and m: "generate_meta_description E self tp (resolved_language U tp lo) (Some kws) w1
          = (Inr meta, w2)"
    and c: "create E (calls w2)
           (request_of self (title_prompt tp (resolved_language U tp lo) (Some kws)) 60) = Inl e"
    by simp_all
  from run_abort_title [OF r m generate_title_error [OF c]]
  show "run U E self tp lo ko synth out w
          = (Inl e, w2\<lparr>calls := calls w2 @
               [request_of self (title_prompt tp (resolved_language U tp lo) (Some kws)) 60]\<rparr>)" .
next
  assume a: "resolve_keywords U E self tp (resolved_language U tp lo) ko synth w = (Inr kws, w1)
      \<and> generate_meta_description E self tp (resolved_language U tp lo) (Some kws) w1
          = (Inr meta, w2)
      \<and> generate_title E self tp (resolved_language U tp lo) (Some kws) w2 = (Inr ttl, w3)
      \<and> create E (calls w3)
           (request_of self (summary_prompt tp (resolved_language U tp lo) (Some kws)) 180) = Inl e"
  then have r: "resolve_keywords U E self tp (resolved_language U tp lo) ko synth w = (Inr kws, w1)"
    and m: "generate_meta_description E self tp (resolved_language U tp lo) (Some kws) w1
          = (Inr meta, w2)"
    and t: "generate_title E self tp (resolved_language U tp lo) (Some kws) w2 = (Inr ttl, w3)"
    and c: "create E (calls w3)
           (request_of self (summary_prompt tp (resolved_language U tp lo) (Some kws)) 180) = Inl e"
    by simp_all
  from run_abort_summary [OF r m t generate_summary_error [OF c]]
  show "run U E self tp lo ko synth out w
          = (Inl e, w3\<lparr>calls := calls w3 @
               [request_of self (summary_prompt tp (resolved_language U tp lo) (Some kws)) 180]\<rparr>)" .
qed


lemma scenario_language: "resolved_language basic_ucd (ascii ''electric bicycles'') None = ascii ''en''"
  by (simp add: resolved_language_def truthy_def detect_language_def is_cyr_def is_lat_def
        basic_ucd_def lower_basic_char_def ascii_def)

lemma scenario_D_keywords:
  "resolve_keywords basic_ucd scenario_D_env default_system (ascii ''electric bicycles'') (ascii ''en'') None True world0
     = (Inr [ascii ''electric bike'', ascii ''cycling''], world0\<lparr>calls := [(request_of default_system (keywords_prompt (ascii ''en'') 8 (ascii ''electric bicycles'')) 200)]\<rparr>)"
proof (rule prod_eqI)
  show "fst (resolve_keywords basic_ucd scenario_D_env default_system (ascii ''electric bicycles'') (ascii ''en'') None
               True world0)
      = fst (Inr [ascii ''electric bike'', ascii ''cycling''], world0\<lparr>calls := [(request_of default_system (keywords_prompt (ascii ''en'') 8 (ascii ''electric bicycles'')) 200)]\<rparr>)"
    by (simp add: resolve_keywords_def generate_synthetic_keywords_def keywords_prompt_def
          scenario_D_env_def eval_chat eval_strings keyword_lines_def strip_markers_def
          is_marker_def basic_ucd_def lower_basic_char_def slice_to_def)
  show "snd (resolve_keywords basic_ucd scenario_D_env default_system (ascii ''electric bicycles'') (ascii ''en'') None
               True world0)
      = snd (Inr [ascii ''electric bike'', ascii ''cycling''], world0\<lparr>calls := [(request_of default_system (keywords_prompt (ascii ''en'') 8 (ascii ''electric bicycles'')) 200)]\<rparr>)"
    by (simp add: resolve_keywords_def generate_synthetic_keywords_world world0_def)
qed

lemma scenario_D_meta:
  "generate_meta_description scenario_D_env default_system (ascii ''electric bicycles'') (ascii ''en'') (Some [ascii ''electric bike'', ascii ''cycling''])
       (world0\<lparr>calls := [(request_of default_system (keywords_prompt (ascii ''en'') 8 (ascii ''electric bicycles'')) 200)]\<rparr>)
     = (Inr (ascii ''Buy the best bikes online''), world0\<lparr>calls := [(request_of default_system (keywords_prompt (ascii ''en'') 8 (ascii ''electric bicycles'')) 200), (request_of default_system (meta_description_prompt (ascii ''electric bicycles'') (ascii ''en'') (Some [ascii ''electric bike'', ascii ''cycling''])) 120)]\<rparr>)"
proof (rule prod_eqI)
  show "fst (generate_meta_description scenario_D_env default_system (ascii ''electric bicycles'') (ascii ''en'')
               (Some [ascii ''electric bike'', ascii ''cycling'']) (world0\<lparr>calls := [(request_of default_system (keywords_prompt (ascii ''en'') 8 (ascii ''electric bicycles'')) 200)]\<rparr>))
      = fst (Inr (ascii ''Buy the best bikes online''), world0\<lparr>calls := [(request_of default_system (keywords_prompt (ascii ''en'') 8 (ascii ''electric bicycles'')) 200), (request_of default_system (meta_description_prompt (ascii ''electric bicycles'') (ascii ''en'') (Some [ascii ''electric bike'', ascii ''cycling''])) 120)]\<rparr>)"
    by (simp add: generate_meta_description_def meta_description_prompt_def keyword_clause_def
          scenario_D_env_def eval_chat eval_strings)
  show "snd (generate_meta_description scenario_D_env default_system (ascii ''electric bicycles'') (ascii ''en'')
               (Some [ascii ''electric bike'', ascii ''cycling'']) (world0\<lparr>calls := [(request_of default_system (keywords_prompt (ascii ''en'') 8 (ascii ''electric bicycles'')) 200)]\<rparr>))
      = snd (Inr (ascii ''Buy the best bikes online''), world0\<lparr>calls := [(request_of default_system (keywords_prompt (ascii ''en'') 8 (ascii ''electric bicycles'')) 200), (request_of default_system (meta_description_prompt (ascii ''electric bicycles'') (ascii ''en'') (Some [ascii ''electric bike'', ascii ''cycling''])) 120)]\<rparr>)"
    by (simp add: generate_meta_description_world world0_def)
qed

lemma scenario_D_title_request:
  "create scenario_D_env (calls (world0\<lparr>calls := [(request_of default_system (keywords_prompt (ascii ''en'') 8 (ascii ''electric bicycles'')) 200), (request_of default_system (meta_description_prompt (ascii ''electric bicycles'') (ascii ''en'') (Some [ascii ''electric bike'', ascii ''cycling''])) 120)]\<rparr>)) (request_of default_system (title_prompt (ascii ''electric bicycles'') (ascii ''en'') (Some [ascii ''electric bike'', ascii ''cycling''])) 60)
     = Inl APIConnectionError"
  by (simp add: scenario_D_env_def mock_env_def scripted_def)

theorem run_aborts_on_service_error_witness:
  "resolve_keywords basic_ucd scenario_D_env default_system (ascii ''electric bicycles'') (ascii ''en'') None True world0
     = (Inr [ascii ''electric bike'', ascii ''cycling''], world0\<lparr>calls := [(request_of default_system (keywords_prompt (ascii ''en'') 8 (ascii ''electric bicycles'')) 200)]\<rparr>)
   \<and> generate_meta_description scenario_D_env default_system (ascii ''electric bicycles'') (ascii ''en'') (Some [ascii ''electric bike'', ascii ''cycling''])
       (world0\<lparr>calls := [(request_of default_system (keywords_prompt (ascii ''en'') 8 (ascii ''electric bicycles'')) 200)]\<rparr>)
     = (Inr (ascii ''Buy the best bikes online''), world0\<lparr>calls := [(request_of default_system (keywords_prompt (ascii ''en'') 8 (ascii ''electric bicycles'')) 200), (request_of default_system (meta_description_prompt (ascii ''electric bicycles'') (ascii ''en'') (Some [ascii ''electric bike'', ascii ''cycling''])) 120)]\<rparr>)
   \<and> create scenario_D_env [(request_of default_system (keywords_prompt (ascii ''en'') 8 (ascii ''electric bicycles'')) 200), (request_of default_system (meta_description_prompt (ascii ''electric bicycles'') (ascii ''en'') (Some [ascii ''electric bike'', ascii ''cycling''])) 120)] (request_of default_system (title_prompt (ascii ''electric bicycles'') (ascii ''en'') (Some [ascii ''electric bike'', ascii ''cycling''])) 60) = Inl APIConnectionError
   \<and> run basic_ucd scenario_D_env default_system (ascii ''electric bicycles'') None None True None world0
     = (Inl APIConnectionError, \<lparr>calls = [(request_of default_system (keywords_prompt (ascii ''en'') 8 (ascii ''electric bicycles'')) 200), (request_of default_system (meta_description_prompt (ascii ''electric bicycles'') (ascii ''en'') (Some [ascii ''electric bike'', ascii ''cycling''])) 120), (request_of default_system (title_prompt (ascii ''electric bicycles'') (ascii ''en'') (Some [ascii ''electric bike'', ascii ''cycling''])) 60)], files = Map.empty\<rparr>)"
proof -
  from run_aborts_on_service_error
         [where U = basic_ucd and E = scenario_D_env and self = default_system
            and tp = "(ascii ''electric bicycles'')" and lo = None and ko = None and synth = True and out = None
            and w = world0 and e = APIConnectionError and kws = "[ascii ''electric bike'', ascii ''cycling'']"
            and ?w1.0 = "world0\<lparr>calls := [(request_of default_system (keywords_prompt (ascii ''en'') 8 (ascii ''electric bicycles'')) 200)]\<rparr>" and meta = "(ascii ''Buy the best bikes online'')"
            and ?w2.0 = "world0\<lparr>calls := [(request_of default_system (keywords_prompt (ascii ''en'') 8 (ascii ''electric bicycles'')) 200), (request_of default_system (meta_description_prompt (ascii ''electric bicycles'') (ascii ''en'') (Some [ascii ''electric bike'', ascii ''cycling''])) 120)]\<rparr>"]
       scenario_D_keywords scenario_D_meta scenario_D_title_request
  have "run basic_ucd scenario_D_env default_system (ascii ''electric bicycles'') None None True None world0
     = (Inl APIConnectionError, world0\<lparr>calls := [(request_of default_system (keywords_prompt (ascii ''en'') 8 (ascii ''electric bicycles'')) 200), (request_of default_system (meta_description_prompt (ascii ''electric bicycles'') (ascii ''en'') (Some [ascii ''electric bike'', ascii ''cycling''])) 120)]\<rparr>
          \<lparr>calls := calls (world0\<lparr>calls := [(request_of default_system (keywords_prompt (ascii ''en'') 8 (ascii ''electric bicycles'')) 200), (request_of default_system (meta_description_prompt (ascii ''electric bicycles'') (ascii ''en'') (Some [ascii ''electric bike'', ascii ''cycling''])) 120)]\<rparr>) @ [(request_of default_system (title_prompt (ascii ''electric bicycles'') (ascii ''en'') (Some [ascii ''electric bike'', ascii ''cycling''])) 60)]\<rparr>)"
    unfolding scenario_language by blast
  then show ?thesis
    using scenario_D_keywords scenario_D_meta scenario_D_title_request
    by (simp add: world0_def)
qed

section \<open>Verification: keyword resolution\<close>

lemma world_calls_of_snd:
  "m w = (r, w') \<Longrightarrow> snd (m w) = w\<lparr>calls := calls w @ [q]\<rparr> \<Longrightarrow> calls w' = calls w @ [q]"
  by simp

text \<open>
  C2. In every run that returns a result, the keyword list stored in the result is the
  resolved list: the caller's keywords if that list is non-empty, else the synthesizer's
  output if synthesis is enabled, else the empty list. The same list is the one given to
  the three generators (the three requests sent after the resolution are built from it)
  and to the three field checks.
\<close>

theorem run_keywords_single_list:
  "run U E self tp lo ko synth out w = (Inr res, w') \<longrightarrow>
     (\<exists>w1 w2 w3 w4.
        resolve_keywords U E self tp (language res) ko synth w = (Inr (keywords res), w1)
      \<and> generate_meta_description E self tp (language res) (Some (keywords res)) w1
          = (Inr (meta_description res), w2)
      \<and> generate_title E self tp (language res) (Some (keywords res)) w2 = (Inr (title res), w3)
      \<and> generate_summary E self tp (language res) (Some (keywords res)) w3
          = (Inr (summary res), w4)
      \<and> calls w4 = calls w1 @
           [request_of self (meta_description_prompt tp (language res) (Some (keywords res))) 120,
            request_of self (title_prompt tp (language res) (Some (keywords res))) 60,
            request_of self (summary_prompt tp (language res) (Some (keywords res))) 180])
   \<and> checks res (ascii ''meta_description'')
       = Some (check_field U (meta_description res) 150 (Some (keywords res)))
   \<and> checks res (ascii ''title'') = Some (check_field U (title res) 60 (Some (keywords res)))
   \<and> checks res (ascii ''summary'') = Some (check_field U (summary res) 300 (Some (keywords res)))
   \<and> (\<forall>ks. ko = Some ks \<and> ks \<noteq> [] \<longrightarrow> keywords res = ks)
   \<and> ((ko = None \<or> ko = Some []) \<and> synth \<longrightarrow>
        (\<exists>w1. generate_synthetic_keywords U E self tp (language res) 8 w = (Inr (keywords res), w1)))
   \<and> ((ko = None \<or> ko = Some []) \<and> \<not> synth \<longrightarrow> keywords res = [])"
proof
  assume "run U E self tp lo ko synth out w = (Inr res, w')"
  then obtain kws meta ttl summ w1 w2 w3 w4 where
      k: "resolve_keywords U E self tp (resolved_language U tp lo) ko synth w = (Inr kws, w1)"
  and m: "generate_meta_description E self tp (resolved_language U tp lo) (Some kws) w1 = (Inr meta, w2)"
  and t: "generate_title E self tp (resolved_language U tp lo) (Some kws) w2 = (Inr ttl, w3)"
  and s: "generate_summary E self tp (resolved_language U tp lo) (Some kws) w3 = (Inr summ, w4)"
  and r: "res = assemble U E self tp (resolved_language U tp lo) kws meta ttl summ"
    unfolding run_Inr by blast
  let ?lang = "resolved_language U tp lo"
  have c2: "calls w2 = calls w1 @ [request_of self (meta_description_prompt tp ?lang (Some kws)) 120]"
    using m generate_meta_description_world by (rule world_calls_of_snd)
  have c3: "calls w3 = calls w2 @ [request_of self (title_prompt tp ?lang (Some kws)) 60]"
    using t generate_title_world by (rule world_calls_of_snd)
  have c4: "calls w4 = calls w3 @ [request_of self (summary_prompt tp ?lang (Some kws)) 180]"
    using s generate_summary_world by (rule world_calls_of_snd)
  have c: "calls w4 = calls w1 @
           [request_of self (meta_description_prompt tp ?lang (Some kws)) 120,
            request_of self (title_prompt tp ?lang (Some kws)) 60,
            request_of self (summary_prompt tp ?lang (Some kws)) 180]"
    using c2 c3 c4 by simp
  have a: "\<forall>ks. ko = Some ks \<and> ks \<noteq> [] \<longrightarrow> kws = ks"
    using k by (auto simp: resolve_keywords_def return_io_eq)
  have b: "(ko = None \<or> ko = Some []) \<and> synth \<longrightarrow>
        (\<exists>w1. generate_synthetic_keywords U E self tp ?lang 8 w = (Inr kws, w1))"
    using k by (auto simp: resolve_keywords_def)
  have d: "(ko = None \<or> ko = Some []) \<and> \<not> synth \<longrightarrow> kws = []"
    using k by (auto simp: resolve_keywords_def return_io_eq)
  from k m t s c a b d show
    "(\<exists>w1 w2 w3 w4.
        resolve_keywords U E self tp (language res) ko synth w = (Inr (keywords res), w1)
      \<and> generate_meta_description E self tp (language res) (Some (keywords res)) w1
          = (Inr (meta_description res), w2)
      \<and> generate_title E self tp (language res) (Some (keywords res)) w2 = (Inr (title res), w3)
      \<and> generate_summary E self tp (language res) (Some (keywords res)) w3
          = (Inr (summary res), w4)
      \<and> calls w4 = calls w1 @
           [request_of self (meta_description_prompt tp (language res) (Some (keywords res))) 120,
            request_of self (title_prompt tp (language res) (Some (keywords res))) 60,
            request_of self (summary_prompt tp (language res) (Some (keywords res))) 180])
   \<and> checks res (ascii ''meta_description'')
       = Some (check_field U (meta_description res) 150 (Some (keywords res)))
   \<and> checks res (ascii ''title'') = Some (check_field U (title res) 60 (Some (keywords res)))
   \<and> checks res (ascii ''summary'') = Some (check_field U (summary res) 300 (Some (keywords res)))
   \<and> (\<forall>ks. ko = Some ks \<and> ks \<noteq> [] \<longrightarrow> keywords res = ks)
   \<and> ((ko = None \<or> ko = Some []) \<and> synth \<longrightarrow>
        (\<exists>w1. generate_synthetic_keywords U E self tp (language res) 8 w = (Inr (keywords res), w1)))
   \<and> ((ko = None \<or> ko = Some []) \<and> \<not> synth \<longrightarrow> keywords res = [])"
    unfolding r fields_assemble checks_assemble by blast
qed


lemma scenario_C_run_eval:
  "fst (run basic_ucd scenario_C_env default_system (ascii ''electric bicycles'') None (Some [ascii ''bicycle'']) True None
          world0)
     = Inr (assemble basic_ucd scenario_C_env default_system (ascii ''electric bicycles'')
        (ascii ''en'') [ascii ''bicycle'']
        (ascii ''Buy the best bikes online'') (ascii ''Best bikes for the city'')
        (ascii ''All about bikes.''))"
  by (simp add: run_unfold resolved_language_def resolve_keywords_def detect_language_def
        is_cyr_def is_lat_def
        generate_meta_description_def meta_description_prompt_def
        generate_title_def title_prompt_def generate_summary_def summary_prompt_def
        keyword_clause_def scenario_C_env_def eval_chat eval_strings
        basic_ucd_def lower_basic_char_def)

lemma scenario_C_run_eval_no_keywords:
  "fst (run basic_ucd scenario_C_env default_system (ascii ''electric bicycles'') None None False None world0)
     = Inr (assemble basic_ucd scenario_C_env default_system (ascii ''electric bicycles'')
        (ascii ''en'') []
        (ascii ''Buy the best bikes online'') (ascii ''Best bikes for the city'')
        (ascii ''All about bikes.''))"
  by (simp add: run_unfold resolved_language_def resolve_keywords_def detect_language_def
        is_cyr_def is_lat_def
        generate_meta_description_def meta_description_prompt_def
        generate_title_def title_prompt_def generate_summary_def summary_prompt_def
        keyword_clause_def scenario_C_env_def eval_chat eval_strings
        basic_ucd_def lower_basic_char_def)

theorem run_keywords_single_list_witness:
  "fst (run basic_ucd scenario_env default_system (ascii ''electric bicycles'') None None True None world0)
     = Inr (assemble basic_ucd scenario_env default_system (ascii ''electric bicycles'')
        (ascii ''en'') [ascii ''electric bike'', ascii ''cycling'']
        (ascii ''Buy the best bikes online'')
        (ascii ''Electric Bicycles: The Complete Guide to Choosing, Riding an'')
        (ascii ''A short guide to electric bike models and cycling.''))
   \<and> fst (generate_synthetic_keywords basic_ucd scenario_env default_system (ascii ''electric bicycles'') (ascii ''en'') 8
            world0)
       = Inr [ascii ''electric bike'', ascii ''cycling'']
   \<and> keywords (assemble basic_ucd scenario_env default_system (ascii ''electric bicycles'')
        (ascii ''en'') [ascii ''electric bike'', ascii ''cycling'']
        (ascii ''Buy the best bikes online'')
        (ascii ''Electric Bicycles: The Complete Guide to Choosing, Riding an'')
        (ascii ''A short guide to electric bike models and cycling.'')) = [ascii ''electric bike'', ascii ''cycling'']
   \<and> checks (assemble basic_ucd scenario_env default_system (ascii ''electric bicycles'')
        (ascii ''en'') [ascii ''electric bike'', ascii ''cycling'']
        (ascii ''Buy the best bikes online'')
        (ascii ''Electric Bicycles: The Complete Guide to Choosing, Riding an'')
        (ascii ''A short guide to electric bike models and cycling.'')) (ascii ''title'')
       = Some (check_field basic_ucd (ascii ''Electric Bicycles: The Complete Guide to Choosing, Riding an'') 60 (Some [ascii ''electric bike'', ascii ''cycling'']))
   \<and> fst (run basic_ucd scenario_C_env default_system (ascii ''electric bicycles'') None (Some [ascii ''bicycle'']) True
            None world0)
       = Inr (assemble basic_ucd scenario_C_env default_system (ascii ''electric bicycles'')
        (ascii ''en'') [ascii ''bicycle'']
        (ascii ''Buy the best bikes online'') (ascii ''Best bikes for the city'')
        (ascii ''All about bikes.''))
   \<and> keywords (assemble basic_ucd scenario_C_env default_system (ascii ''electric bicycles'')
        (ascii ''en'') [ascii ''bicycle'']
        (ascii ''Buy the best bikes online'') (ascii ''Best bikes for the city'')
        (ascii ''All about bikes.'')) = [ascii ''bicycle'']
   \<and> fst (run basic_ucd scenario_C_env default_system (ascii ''electric bicycles'') None None False None world0)
       = Inr (assemble basic_ucd scenario_C_env default_system (ascii ''electric bicycles'')
        (ascii ''en'') []
        (ascii ''Buy the best bikes online'') (ascii ''Best bikes for the city'')
        (ascii ''All about bikes.''))
   \<and> keywords (assemble basic_ucd scenario_C_env default_system (ascii ''electric bicycles'')
        (ascii ''en'') []
        (ascii ''Buy the best bikes online'') (ascii ''Best bikes for the city'')
        (ascii ''All about bikes.'')) = []"
proof -
  let ?runA = "run basic_ucd scenario_env default_system (ascii ''electric bicycles'') None None True None world0"
  let ?runB = "run basic_ucd scenario_C_env default_system (ascii ''electric bicycles'') None (Some [ascii ''bicycle''])
                 True None world0"
  let ?runC = "run basic_ucd scenario_C_env default_system (ascii ''electric bicycles'') None None False None world0"
  have a: "?runA = (Inr (assemble basic_ucd scenario_env default_system (ascii ''electric bicycles'')
        (ascii ''en'') [ascii ''electric bike'', ascii ''cycling'']
        (ascii ''Buy the best bikes online'')
        (ascii ''Electric Bicycles: The Complete Guide to Choosing, Riding an'')
        (ascii ''A short guide to electric bike models and cycling.'')), snd ?runA)"
    using scenario_run_eval by (metis prod.collapse)
  have b: "?runB = (Inr (assemble basic_ucd scenario_C_env default_system (ascii ''electric bicycles'')
        (ascii ''en'') [ascii ''bicycle'']
        (ascii ''Buy the best bikes online'') (ascii ''Best bikes for the city'')
        (ascii ''All about bikes.'')), snd ?runB)"
    using scenario_C_run_eval by (metis prod.collapse)
  have c: "?runC = (Inr (assemble basic_ucd scenario_C_env default_system (ascii ''electric bicycles'')
        (ascii ''en'') []
        (ascii ''Buy the best bikes online'') (ascii ''Best bikes for the city'')
        (ascii ''All about bikes.'')), snd ?runC)"
    using scenario_C_run_eval_no_keywords by (metis prod.collapse)
  from run_keywords_single_list
         [where U = basic_ucd and E = scenario_env and self = default_system and tp = "(ascii ''electric bicycles'')"
            and lo = None and ko = None and synth = True and out = None and w = world0
            and res = "(assemble basic_ucd scenario_env default_system (ascii ''electric bicycles'')
        (ascii ''en'') [ascii ''electric bike'', ascii ''cycling'']
        (ascii ''Buy the best bikes online'')
        (ascii ''Electric Bicycles: The Complete Guide to Choosing, Riding an'')
        (ascii ''A short guide to electric bike models and cycling.''))" and w' = "snd ?runA"] a
  have a1: "\<exists>w1. generate_synthetic_keywords basic_ucd scenario_env default_system (ascii ''electric bicycles'')
                  (ascii ''en'') 8 world0 = (Inr [ascii ''electric bike'', ascii ''cycling''], w1)"
    and a2: "checks (assemble basic_ucd scenario_env default_system (ascii ''electric bicycles'')
        (ascii ''en'') [ascii ''electric bike'', ascii ''cycling'']
        (ascii ''Buy the best bikes online'')
        (ascii ''Electric Bicycles: The Complete Guide to Choosing, Riding an'')
        (ascii ''A short guide to electric bike models and cycling.'')) (ascii ''title'')
       = Some (check_field basic_ucd (ascii ''Electric Bicycles: The Complete Guide to Choosing, Riding an'') 60 (Some [ascii ''electric bike'', ascii ''cycling'']))"
    unfolding fields_assemble by blast+
  from a1 have a3: "fst (generate_synthetic_keywords basic_ucd scenario_env default_system (ascii ''electric bicycles'')
                (ascii ''en'') 8 world0) = Inr [ascii ''electric bike'', ascii ''cycling'']"
    by auto
  from run_keywords_single_list
         [where U = basic_ucd and E = scenario_C_env and self = default_system and tp = "(ascii ''electric bicycles'')"
            and lo = None and ko = "Some [ascii ''bicycle'']" and synth = True and out = None
            and w = world0 and res = "(assemble basic_ucd scenario_C_env default_system (ascii ''electric bicycles'')
        (ascii ''en'') [ascii ''bicycle'']
        (ascii ''Buy the best bikes online'') (ascii ''Best bikes for the city'')
        (ascii ''All about bikes.''))" and w' = "snd ?runB"] b
  have b1: "keywords (assemble basic_ucd scenario_C_env default_system (ascii ''electric bicycles'')
        (ascii ''en'') [ascii ''bicycle'']
        (ascii ''Buy the best bikes online'') (ascii ''Best bikes for the city'')
        (ascii ''All about bikes.'')) = [ascii ''bicycle'']"
    by (simp add: ascii_def)
  from run_keywords_single_list
         [where U = basic_ucd and E = scenario_C_env and self = default_system and tp = "(ascii ''electric bicycles'')"
            and lo = None and ko = None and synth = False and out = None
            and w = world0 and res = "(assemble basic_ucd scenario_C_env default_system (ascii ''electric bicycles'')
        (ascii ''en'') []
        (ascii ''Buy the best bikes online'') (ascii ''Best bikes for the city'')
        (ascii ''All about bikes.''))" and w' = "snd ?runC"] c
  have c1: "keywords (assemble basic_ucd scenario_C_env default_system (ascii ''electric bicycles'')
        (ascii ''en'') []
        (ascii ''Buy the best bikes online'') (ascii ''Best bikes for the city'')
        (ascii ''All about bikes.'')) = []"
    by blast
  from a3 a2 b1 c1 scenario_run_eval scenario_C_run_eval scenario_C_run_eval_no_keywords
  show ?thesis by (simp add: fields_assemble)
qed

section \<open>Verification: the output artifact and empty arguments\<close>

lemma run_with_path:
  assumes "run U E self tp lo ko synth None w = (Inr res, w4)"
  shows "run U E self tp lo ko synth out w
           = (if truthy out
              then (case dump_json E (the out) res w4 of
                      (Inl e, w') \<Rightarrow> (Inl e, w') | (Inr u, w') \<Rightarrow> (Inr res, w'))
              else (Inr res, w4))"
proof -
  from assms obtain kws meta ttl summ w1 w2 w3 where
      k: "resolve_keywords U E self tp (resolved_language U tp lo) ko synth w = (Inr kws, w1)"
  and m: "generate_meta_description E self tp (resolved_language U tp lo) (Some kws) w1 = (Inr meta, w2)"
  and t: "generate_title E self tp (resolved_language U tp lo) (Some kws) w2 = (Inr ttl, w3)"
  and s: "generate_summary E self tp (resolved_language U tp lo) (Some kws) w3 = (Inr summ, w4)"
  and r: "res = assemble U E self tp (resolved_language U tp lo) kws meta ttl summ"
    unfolding run_Inr by (auto simp: truthy_def return_io_eq)
  show ?thesis
    unfolding run_unfold using k m t s r
    by (cases "dump_json E (the out) res w4")
       (auto simp: bind_io_def return_io_def split: sum.splits)
qed

text \<open>
  C6 (amended). Let the pipeline complete, so that the run without an output path
  returns the assembled result. With an output path whose write fails, the run returns
  the write error and no result; with a path whose write succeeds it returns the same
  result and the artifact is in the file; with no path it returns the result.
\<close>

theorem run_write_failure:
  "run U E self tp lo ko synth None w = (Inr res, w4) \<longrightarrow>
     (truthy out \<and> write_error E (the out) res = Some e \<longrightarrow>
        run U E self tp lo ko synth out w = (Inl e, w4))
   \<and> (truthy out \<and> write_error E (the out) res = None \<longrightarrow>
        run U E self tp lo ko synth out w = (Inr res, w4\<lparr>files := (files w4)(the out \<mapsto> res)\<rparr>))
   \<and> (\<not> truthy out \<longrightarrow> run U E self tp lo ko synth out w = (Inr res, w4))"
  by (simp add: run_with_path dump_json_def)

lemma unwritable_run_eval:
  "fst (run basic_ucd unwritable_env default_system (ascii ''electric bicycles'') None (Some [ascii ''bicycle'']) True None
          world0)
     = Inr (assemble basic_ucd unwritable_env default_system (ascii ''electric bicycles'')
        (ascii ''en'') [ascii ''bicycle'']
        (ascii ''Buy the best bikes online'') (ascii ''Best bikes for the city'')
        (ascii ''All about bikes.''))"
  by (simp add: run_unfold resolved_language_def resolve_keywords_def detect_language_def
        is_cyr_def is_lat_def
        generate_meta_description_def meta_description_prompt_def
        generate_title_def title_prompt_def generate_summary_def summary_prompt_def
        keyword_clause_def unwritable_env_def scenario_C_env_def eval_chat eval_strings
        basic_ucd_def lower_basic_char_def dump_json_def)

text \<open>
  C6 as stated fails: the file system refuses the write and the run returns the error
  instead of the result.
\<close>

theorem run_write_failure_counterexample:
  "fst (run basic_ucd unwritable_env default_system (ascii ''electric bicycles'') None (Some [ascii ''bicycle'']) True
          (Some (ascii ''seo_output.json'')) world0)
     = Inl OSError"
  by (simp add: run_unfold resolved_language_def resolve_keywords_def detect_language_def
        is_cyr_def is_lat_def
        generate_meta_description_def meta_description_prompt_def
        generate_title_def title_prompt_def generate_summary_def summary_prompt_def
        keyword_clause_def unwritable_env_def scenario_C_env_def eval_chat eval_strings
        basic_ucd_def lower_basic_char_def dump_json_def)

theorem run_write_failure_witness:
  "fst (run basic_ucd unwritable_env default_system (ascii ''electric bicycles'') None (Some [ascii ''bicycle'']) True None
          world0)
     = Inr (assemble basic_ucd unwritable_env default_system (ascii ''electric bicycles'')
        (ascii ''en'') [ascii ''bicycle'']
        (ascii ''Buy the best bikes online'') (ascii ''Best bikes for the city'')
        (ascii ''All about bikes.''))
   \<and> truthy (Some (ascii ''seo_output.json''))
   \<and> write_error unwritable_env (ascii ''seo_output.json'') (assemble basic_ucd unwritable_env default_system (ascii ''electric bicycles'')
        (ascii ''en'') [ascii ''bicycle'']
        (ascii ''Buy the best bikes online'') (ascii ''Best bikes for the city'')
        (ascii ''All about bikes.'')) = Some OSError
   \<and> fst (run basic_ucd unwritable_env default_system (ascii ''electric bicycles'') None (Some [ascii ''bicycle'']) True
            (Some (ascii ''seo_output.json'')) world0)
       = Inl OSError
   \<and> \<not> truthy None
   \<and> \<not> truthy (Some [])"
proof -
  let ?run = "run basic_ucd unwritable_env default_system (ascii ''electric bicycles'') None (Some [ascii ''bicycle''])
                True None world0"
  have a: "?run = (Inr (assemble basic_ucd unwritable_env default_system (ascii ''electric bicycles'')
        (ascii ''en'') [ascii ''bicycle'']
        (ascii ''Buy the best bikes online'') (ascii ''Best bikes for the city'')
        (ascii ''All about bikes.'')), snd ?run)"
    using unwritable_run_eval by (metis prod.collapse)
  have t: "truthy (Some (ascii ''seo_output.json''))"
    by (simp add: truthy_def ascii_def)
  have e: "write_error unwritable_env (the (Some (ascii ''seo_output.json''))) (assemble basic_ucd unwritable_env default_system (ascii ''electric bicycles'')
        (ascii ''en'') [ascii ''bicycle'']
        (ascii ''Buy the best bikes online'') (ascii ''Best bikes for the city'')
        (ascii ''All about bikes.'')) = Some OSError"
    by (simp add: unwritable_env_def)
  from run_write_failure
         [where U = basic_ucd and E = unwritable_env and self = default_system and tp = "(ascii ''electric bicycles'')"
            and lo = None and ko = "Some [ascii ''bicycle'']" and synth = True and w = world0
            and res = "(assemble basic_ucd unwritable_env default_system (ascii ''electric bicycles'')
        (ascii ''en'') [ascii ''bicycle'']
        (ascii ''Buy the best bikes online'') (ascii ''Best bikes for the city'')
        (ascii ''All about bikes.''))" and ?w4.0 = "snd ?run" and out = "Some (ascii ''seo_output.json'')"
            and e = OSError] a t e
  have "run basic_ucd unwritable_env default_system (ascii ''electric bicycles'') None (Some [ascii ''bicycle'']) True
            (Some (ascii ''seo_output.json'')) world0 = (Inl OSError, snd ?run)"
    by blast
  with t e unwritable_run_eval show ?thesis by (simp add: truthy_def)
qed

text \<open>
  C10. An empty string given as the language is treated as no language: the run is
  the same and the language of the result is the one detected on the topic. An empty
  list given as the keywords is treated as no keywords: the run is the same and, with
  synthesis enabled, the keywords of the result are the synthesizer's output.
\<close>

theorem run_empty_arguments:
  "run U E self tp (Some []) ko synth out = run U E self tp None ko synth out
   \<and> run U E self tp lo (Some []) synth out = run U E self tp lo None synth out
   \<and> (run U E self tp (Some []) ko synth out w = (Inr res, w') \<longrightarrow>
        language res = detect_language U tp)
   \<and> (run U E self tp lo (Some []) True out w = (Inr res, w') \<longrightarrow>
        (\<exists>w1. generate_synthetic_keywords U E self tp (language res) 8 w
                = (Inr (keywords res), w1)))"
proof (intro conjI impI)
  show "run U E self tp (Some []) ko synth out = run U E self tp None ko synth out"
    by (simp add: run_def truthy_def)
  show "run U E self tp lo (Some []) synth out = run U E self tp lo None synth out"
    by (simp add: run_def)
  show "language res = detect_language U tp"
    if "run U E self tp (Some []) ko synth out w = (Inr res, w')"
    using that unfolding run_Inr
    by (auto simp: fields_assemble resolved_language_def truthy_def)
  show "\<exists>w1. generate_synthetic_keywords U E self tp (language res) 8 w = (Inr (keywords res), w1)"
    if "run U E self tp lo (Some []) True out w = (Inr res, w')"
    using that unfolding run_Inr
    by (auto simp: fields_assemble resolve_keywords_def)
qed


theorem run_empty_arguments_witness:
  "fst (run basic_ucd scenario_env default_system (ascii ''electric bicycles'') (Some []) (Some []) True None world0)
     = Inr (assemble basic_ucd scenario_env default_system (ascii ''electric bicycles'')
        (ascii ''en'') [ascii ''electric bike'', ascii ''cycling'']
        (ascii ''Buy the best bikes online'')
        (ascii ''Electric Bicycles: The Complete Guide to Choosing, Riding an'')
        (ascii ''A short guide to electric bike models and cycling.''))
   \<and> language (assemble basic_ucd scenario_env default_system (ascii ''electric bicycles'')
        (ascii ''en'') [ascii ''electric bike'', ascii ''cycling'']
        (ascii ''Buy the best bikes online'')
        (ascii ''Electric Bicycles: The Complete Guide to Choosing, Riding an'')
        (ascii ''A short guide to electric bike models and cycling.'')) = detect_language basic_ucd (ascii ''electric bicycles'')
   \<and> fst (generate_synthetic_keywords basic_ucd scenario_env default_system (ascii ''electric bicycles'') (ascii ''en'') 8
            world0)
       = Inr (keywords (assemble basic_ucd scenario_env default_system (ascii ''electric bicycles'')
        (ascii ''en'') [ascii ''electric bike'', ascii ''cycling'']
        (ascii ''Buy the best bikes online'')
        (ascii ''Electric Bicycles: The Complete Guide to Choosing, Riding an'')
        (ascii ''A short guide to electric bike models and cycling.'')))"
proof -
  let ?run = "run basic_ucd scenario_env default_system (ascii ''electric bicycles'') (Some []) (Some []) True None world0"
  have eq: "?run = run basic_ucd scenario_env default_system (ascii ''electric bicycles'') None None True None world0"
    using run_empty_arguments [of basic_ucd scenario_env default_system "(ascii ''electric bicycles'')" "Some []" True None
             "Some []"]
          run_empty_arguments [of basic_ucd scenario_env default_system "(ascii ''electric bicycles'')" None True None
             None]
    by simp
  then have f: "fst ?run = Inr (assemble basic_ucd scenario_env default_system (ascii ''electric bicycles'')
        (ascii ''en'') [ascii ''electric bike'', ascii ''cycling'']
        (ascii ''Buy the best bikes online'')
        (ascii ''Electric Bicycles: The Complete Guide to Choosing, Riding an'')
        (ascii ''A short guide to electric bike models and cycling.''))"
    using scenario_run_eval by simp
  then have a: "?run = (Inr (assemble basic_ucd scenario_env default_system (ascii ''electric bicycles'')
        (ascii ''en'') [ascii ''electric bike'', ascii ''cycling'']
        (ascii ''Buy the best bikes online'')
        (ascii ''Electric Bicycles: The Complete Guide to Choosing, Riding an'')
        (ascii ''A short guide to electric bike models and cycling.'')), snd ?run)"
    by (metis prod.collapse)
  from run_empty_arguments
         [where U = basic_ucd and E = scenario_env and self = default_system and tp = "(ascii ''electric bicycles'')"
            and ko = "Some []" and lo = "Some []" and synth = True and out = None and w = world0
            and res = "(assemble basic_ucd scenario_env default_system (ascii ''electric bicycles'')
        (ascii ''en'') [ascii ''electric bike'', ascii ''cycling'']
        (ascii ''Buy the best bikes online'')
        (ascii ''Electric Bicycles: The Complete Guide to Choosing, Riding an'')
        (ascii ''A short guide to electric bike models and cycling.''))" and w' = "snd ?run"] a
  have l: "language (assemble basic_ucd scenario_env default_system (ascii ''electric bicycles'')
        (ascii ''en'') [ascii ''electric bike'', ascii ''cycling'']
        (ascii ''Buy the best bikes online'')
        (ascii ''Electric Bicycles: The Complete Guide to Choosing, Riding an'')
        (ascii ''A short guide to electric bike models and cycling.'')) = detect_language basic_ucd (ascii ''electric bicycles'')"
    and "\<exists>w1. generate_synthetic_keywords basic_ucd scenario_env default_system (ascii ''electric bicycles'')
                 (language (assemble basic_ucd scenario_env default_system (ascii ''electric bicycles'')
        (ascii ''en'') [ascii ''electric bike'', ascii ''cycling'']
        (ascii ''Buy the best bikes online'')
        (ascii ''Electric Bicycles: The Complete Guide to Choosing, Riding an'')
        (ascii ''A short guide to electric bike models and cycling.''))) 8 world0 = (Inr (keywords (assemble basic_ucd scenario_env default_system (ascii ''electric bicycles'')
        (ascii ''en'') [ascii ''electric bike'', ascii ''cycling'']
        (ascii ''Buy the best bikes online'')
        (ascii ''Electric Bicycles: The Complete Guide to Choosing, Riding an'')
        (ascii ''A short guide to electric bike models and cycling.''))), w1)"
    by blast+
  then have "fst (generate_synthetic_keywords basic_ucd scenario_env default_system (ascii ''electric bicycles'')
                 (ascii ''en'') 8 world0) = Inr (keywords (assemble basic_ucd scenario_env default_system (ascii ''electric bicycles'')
        (ascii ''en'') [ascii ''electric bike'', ascii ''cycling'']
        (ascii ''Buy the best bikes online'')
        (ascii ''Electric Bicycles: The Complete Guide to Choosing, Riding an'')
        (ascii ''A short guide to electric bike models and cycling.'')))"
    unfolding fields_assemble by auto
  with f l show ?thesis by simp
qed

section \<open>Verification: the report\<close>

lemma mark_inject: "mark a = mark b \<longleftrightarrow> a = b"
  by (simp add: mark_def)

lemma report_lines_of_checks:
  assumes "checks res (ascii ''meta_description'') = Some m"
    and "checks res (ascii ''title'') = Some t"
    and "checks res (ascii ''summary'') = Some s"
  shows "report_lines res = Inr
    [[1058, 1077, 1084, 1072, 58, 32] @ topic res,
     [1071, 1079, 1099, 1082, 58, 32] @ language res,
     [1050, 1083, 1102, 1095, 1077, 1074, 1099, 1077, 32, 1089, 1083, 1086, 1074, 1072,
      58, 32] @ (if keywords res \<noteq> [] then join (ascii '', '') (keywords res) else [8212]),
     [],
     field_head ''TITLE'' t (title res),
     field_line t,
     [],
     field_head ''META'' m (meta_description res),
     field_line m,
     [],
     field_head ''SUMMARY'' s (summary res),
     field_line s,
     [],
     [1052, 1086, 1076, 1077, 1083, 1100, 58, 32] @ model_used res,
     [1042, 1088, 1077, 1084, 1103, 58, 32] @ timestamp res,
     [],
     [1041, 1072, 1079, 1086, 1074, 1099, 1081, 32, 1082, 1088, 1080, 1090, 1077, 1088,
      1080, 1081, 58, 32, 1082, 1086, 1085, 1090, 1077, 1085, 1090, 32, 1089, 1086, 1079,
      1076, 1072, 1085, 46],
     verdict_prefix @ mark ((ok_length m \<and> missing_keywords_fc m = [])
                            \<and> (ok_length t \<and> missing_keywords_fc t = [])
                            \<and> (ok_length s \<and> missing_keywords_fc s = []))]"
  using assms by (simp add: report_lines_def Let_def)

lemma sublist_join: "x \<in> set xs \<Longrightarrow> sublist x (join sep xs)"
proof (induction sep xs rule: join.induct)
  case (1 sep)
  then show ?case by simp
next
  case (2 sep y)
  then show ?case by simp
next
  case (3 sep y z zs)
  show ?case
  proof (cases "x = y")
    case True
    have "join sep (y # z # zs) = [] @ y @ (sep @ join sep (z # zs))" by simp
    then show ?thesis unfolding True sublist_def by blast
  next
    case False
    with 3 have "sublist x (join sep (z # zs))" by simp
    then obtain ps ss where "join sep (z # zs) = ps @ x @ ss" by (auto simp: sublist_def)
    then have "join sep (y # z # zs) = (y @ sep @ ps) @ x @ ss" by simp
    then show ?thesis unfolding sublist_def by blast
  qed
qed

lemma field_line_missing:
  "kw \<in> set (missing_keywords_fc c) \<Longrightarrow> sublist kw (field_line c)"
proof -
  assume k: "kw \<in> set (missing_keywords_fc c)"
  then have n: "missing_keywords_fc c \<noteq> []" by auto
  from k have "sublist kw (join (ascii '', '') (missing_keywords_fc c))" by (rule sublist_join)
  then obtain ps ss where "join (ascii '', '') (missing_keywords_fc c) = ps @ kw @ ss"
    by (auto simp: sublist_def)
  then have "\<exists>qs. field_line c = qs @ kw @ ss"
    using n by (simp add: field_line_def list_or_dash_def)
  then show ?thesis unfolding sublist_def by blast
qed

lemma field_line_explicit:
  "field_line c = [32, 32, 1044, 1083, 1080, 1085, 1072, 32, 1054, 1050, 58, 32] @ (if ok_length c then [10003] else [10007]) @
          [59, 32, 1054, 1090, 1089, 1091, 1090, 1089, 1090, 1074, 1091, 1102, 1090, 32, 1082, 1083,
           1102, 1095, 1077, 1074, 1099, 1077, 58, 32] @
          (if missing_keywords_fc c = [] then [8212]
           else join (ascii '', '') (missing_keywords_fc c))"
  by (simp add: field_line_def mark_def list_or_dash_def)

lemma ascii_append: "ascii (a @ b) = ascii a @ ascii b"
  by (simp add: ascii_def)

lemma field_head_explicit:
  "field_head ''TITLE'' c txt = ascii ''TITLE ('' @ str_int (int (length_fc c)) @ ascii ''/'' @
              str_int (max_allowed c) @ ascii ''): '' @ txt"
  "field_head ''META'' c txt = ascii ''META ('' @ str_int (int (length_fc c)) @ ascii ''/'' @
              str_int (max_allowed c) @ ascii ''): '' @ txt"
  "field_head ''SUMMARY'' c txt = ascii ''SUMMARY ('' @ str_int (int (length_fc c)) @ ascii ''/'' @
              str_int (max_allowed c) @ ascii ''): '' @ txt"
  by (simp_all add: field_head_def ascii_def)

text \<open>
  C9. For every result that carries the three field checks (every result of a run does,
  and for it the report is produced), the report ends with the verdict line, and the
  verdict is true if and only if the title, the meta description and the summary all
  have \<open>ok_length\<close> true and an empty list of missing keywords. For each field the report
  has a head line that shows its length and its maximum before the text, and a line
  that shows the length-ok mark and then the missing keywords joined by commas, or a
  dash when there are none; every missing keyword stands in that line.
\<close>

theorem pretty_report_verdict:
  "(checks res (ascii ''meta_description'') = Some m \<and> checks res (ascii ''title'') = Some t
      \<and> checks res (ascii ''summary'') = Some s \<longrightarrow>
      (\<exists>ls. report_lines res = Inr ls \<and> pretty_report res = Inr (join [10] ls)
        \<and> length ls = 18
        \<and> ls ! 4 = ascii ''TITLE ('' @ str_int (int (length_fc t)) @ ascii ''/'' @
              str_int (max_allowed t) @ ascii ''): '' @ title res
        \<and> ls ! 5 = [32, 32, 1044, 1083, 1080, 1085, 1072, 32, 1054, 1050, 58, 32] @ (if ok_length t then [10003] else [10007]) @
          [59, 32, 1054, 1090, 1089, 1091, 1090, 1089, 1090, 1074, 1091, 1102, 1090, 32, 1082, 1083,
           1102, 1095, 1077, 1074, 1099, 1077, 58, 32] @
          (if missing_keywords_fc t = [] then [8212]
           else join (ascii '', '') (missing_keywords_fc t))
        \<and> (\<forall>kw \<in> set (missing_keywords_fc t). sublist kw (ls ! 5))
        \<and> ls ! 7 = ascii ''META ('' @ str_int (int (length_fc m)) @ ascii ''/'' @
              str_int (max_allowed m) @ ascii ''): '' @ meta_description res
        \<and> ls ! 8 = [32, 32, 1044, 1083, 1080, 1085, 1072, 32, 1054, 1050, 58, 32] @ (if ok_length m then [10003] else [10007]) @
          [59, 32, 1054, 1090, 1089, 1091, 1090, 1089, 1090, 1074, 1091, 1102, 1090, 32, 1082, 1083,
           1102, 1095, 1077, 1074, 1099, 1077, 58, 32] @
          (if missing_keywords_fc m = [] then [8212]
           else join (ascii '', '') (missing_keywords_fc m))
        \<and> (\<forall>kw \<in> set (missing_keywords_fc m). sublist kw (ls ! 8))
        \<and> ls ! 10 = ascii ''SUMMARY ('' @ str_int (int (length_fc s)) @ ascii ''/'' @
              str_int (max_allowed s) @ ascii ''): '' @ summary res
        \<and> ls ! 11 = [32, 32, 1044, 1083, 1080, 1085, 1072, 32, 1054, 1050, 58, 32] @ (if ok_length s then [10003] else [10007]) @
          [59, 32, 1054, 1090, 1089, 1091, 1090, 1089, 1090, 1074, 1091, 1102, 1090, 32, 1082, 1083,
           1102, 1095, 1077, 1074, 1099, 1077, 58, 32] @
          (if missing_keywords_fc s = [] then [8212]
           else join (ascii '', '') (missing_keywords_fc s))
        \<and> (\<forall>kw \<in> set (missing_keywords_fc s). sublist kw (ls ! 11))
        \<and> (last ls = [1048, 1090, 1086, 1075, 1086, 1074, 1072, 1103, 32, 1084, 1077, 1090, 1088, 1080, 1082,
           1072, 32, 40, 1074, 1089, 1077, 32, 1090, 1088, 1077, 1073, 1086, 1074, 1072, 1085, 1080,
           1103, 32, 1074, 1099, 1087, 1086, 1083, 1085, 1077, 1085, 1099, 41, 58, 32] @ [10003]
           \<or> last ls = [1048, 1090, 1086, 1075, 1086, 1074, 1072, 1103, 32, 1084, 1077, 1090, 1088, 1080, 1082,
           1072, 32, 40, 1074, 1089, 1077, 32, 1090, 1088, 1077, 1073, 1086, 1074, 1072, 1085, 1080,
           1103, 32, 1074, 1099, 1087, 1086, 1083, 1085, 1077, 1085, 1099, 41, 58, 32] @ [10007])
        \<and> (last ls = [1048, 1090, 1086, 1075, 1086, 1074, 1072, 1103, 32, 1084, 1077, 1090, 1088, 1080, 1082,
           1072, 32, 40, 1074, 1089, 1077, 32, 1090, 1088, 1077, 1073, 1086, 1074, 1072, 1085, 1080,
           1103, 32, 1074, 1099, 1087, 1086, 1083, 1085, 1077, 1085, 1099, 41, 58, 32] @ [10003] \<longleftrightarrow>
             ok_length t \<and> missing_keywords_fc t = []
           \<and> ok_length m \<and> missing_keywords_fc m = []
           \<and> ok_length s \<and> missing_keywords_fc s = [])))
   \<and> (run U E self tp lo ko synth out w = (Inr r, w') \<longrightarrow>
        (\<exists>report. pretty_report r = Inr report)
      \<and> (\<exists>cm ct cs. checks r (ascii ''meta_description'') = Some cm
            \<and> checks r (ascii ''title'') = Some ct \<and> checks r (ascii ''summary'') = Some cs))"
proof (intro conjI impI)
  assume a: "checks res (ascii ''meta_description'') = Some m \<and> checks res (ascii ''title'') = Some t
      \<and> checks res (ascii ''summary'') = Some s"
  define ls where "ls =
    [[1058, 1077, 1084, 1072, 58, 32] @ topic res,
     [1071, 1079, 1099, 1082, 58, 32] @ language res,
     [1050, 1083, 1102, 1095, 1077, 1074, 1099, 1077, 32, 1089, 1083, 1086, 1074, 1072,
      58, 32] @ (if keywords res \<noteq> [] then join (ascii '', '') (keywords res) else [8212]),
     [],
     field_head ''TITLE'' t (title res),
     field_line t,
     [],
     field_head ''META'' m (meta_description res),
     field_line m,
     [],
     field_head ''SUMMARY'' s (summary res),
     field_line s,
     [],
     [1052, 1086, 1076, 1077, 1083, 1100, 58, 32] @ model_used res,
     [1042, 1088, 1077, 1084, 1103, 58, 32] @ timestamp res,
     [],
     [1041, 1072, 1079, 1086, 1074, 1099, 1081, 32, 1082, 1088, 1080, 1090, 1077, 1088,
      1080, 1081, 58, 32, 1082, 1086, 1085, 1090, 1077, 1085, 1090, 32, 1089, 1086, 1079,
      1076, 1072, 1085, 46],
     verdict_prefix @ mark ((ok_length m \<and> missing_keywords_fc m = [])
                            \<and> (ok_length t \<and> missing_keywords_fc t = [])
                            \<and> (ok_length s \<and> missing_keywords_fc s = []))]"
  from a have l: "report_lines res = Inr ls"
    unfolding ls_def using report_lines_of_checks by blast
  then have p: "pretty_report res = Inr (join [10] ls)"
    by (simp add: pretty_report_def)
  have n: "length ls = 18" by (simp add: ls_def)
  have i4: "ls ! 4 = field_head ''TITLE'' t (title res)" by (simp add: ls_def)
  have i5: "ls ! 5 = field_line t" by (simp add: ls_def)
  have i7: "ls ! 7 = field_head ''META'' m (meta_description res)" by (simp add: ls_def)
  have i8: "ls ! 8 = field_line m" by (simp add: ls_def)
  have i10: "ls ! 10 = field_head ''SUMMARY'' s (summary res)" by (simp add: ls_def)
  have i11: "ls ! 11 = field_line s" by (simp add: ls_def)
  have la: "last ls = verdict_prefix @ mark ((ok_length m \<and> missing_keywords_fc m = [])
                            \<and> (ok_length t \<and> missing_keywords_fc t = [])
                            \<and> (ok_length s \<and> missing_keywords_fc s = []))"
    by (simp add: ls_def)
  have v1: "last ls = [1048, 1090, 1086, 1075, 1086, 1074, 1072, 1103, 32, 1084, 1077, 1090, 1088, 1080, 1082,
           1072, 32, 40, 1074, 1089, 1077, 32, 1090, 1088, 1077, 1073, 1086, 1074, 1072, 1085, 1080,
           1103, 32, 1074, 1099, 1087, 1086, 1083, 1085, 1077, 1085, 1099, 41, 58, 32] @ [10003]
           \<or> last ls = [1048, 1090, 1086, 1075, 1086, 1074, 1072, 1103, 32, 1084, 1077, 1090, 1088, 1080, 1082,
           1072, 32, 40, 1074, 1089, 1077, 32, 1090, 1088, 1077, 1073, 1086, 1074, 1072, 1085, 1080,
           1103, 32, 1074, 1099, 1087, 1086, 1083, 1085, 1077, 1085, 1099, 41, 58, 32] @ [10007]"
    unfolding la by (simp add: verdict_prefix_def mark_def)
  have v2: "last ls = [1048, 1090, 1086, 1075, 1086, 1074, 1072, 1103, 32, 1084, 1077, 1090, 1088, 1080, 1082,
           1072, 32, 40, 1074, 1089, 1077, 32, 1090, 1088, 1077, 1073, 1086, 1074, 1072, 1085, 1080,
           1103, 32, 1074, 1099, 1087, 1086, 1083, 1085, 1077, 1085, 1099, 41, 58, 32] @ [10003] \<longleftrightarrow>
             ok_length t \<and> missing_keywords_fc t = []
           \<and> ok_length m \<and> missing_keywords_fc m = []
           \<and> ok_length s \<and> missing_keywords_fc s = []"
    unfolding la by (auto simp: verdict_prefix_def mark_def)
  have m5: "\<forall>kw \<in> set (missing_keywords_fc t). sublist kw (ls ! 5)"
    unfolding i5 using field_line_missing by blast
  have m8: "\<forall>kw \<in> set (missing_keywords_fc m). sublist kw (ls ! 8)"
    unfolding i8 using field_line_missing by blast
  have m11: "\<forall>kw \<in> set (missing_keywords_fc s). sublist kw (ls ! 11)"
    unfolding i11 using field_line_missing by blast
  note h4 = i4 [unfolded field_head_explicit]
  note h7 = i7 [unfolded field_head_explicit]
  note h10 = i10 [unfolded field_head_explicit]
  note e5 = i5 [unfolded field_line_explicit]
  note e8 = i8 [unfolded field_line_explicit]
  note e11 = i11 [unfolded field_line_explicit]
  show "(\<exists>ls. report_lines res = Inr ls \<and> pretty_report res = Inr (join [10] ls)
        \<and> length ls = 18
        \<and> ls ! 4 = ascii ''TITLE ('' @ str_int (int (length_fc t)) @ ascii ''/'' @
              str_int (max_allowed t) @ ascii ''): '' @ title res
        \<and> ls ! 5 = [32, 32, 1044, 1083, 1080, 1085, 1072, 32, 1054, 1050, 58, 32] @ (if ok_length t then [10003] else [10007]) @
          [59, 32, 1054, 1090, 1089, 1091, 1090, 1089, 1090, 1074, 1091, 1102, 1090, 32, 1082, 1083,
           1102, 1095, 1077, 1074, 1099, 1077, 58, 32] @
          (if missing_keywords_fc t = [] then [8212]
           else join (ascii '', '') (missing_keywords_fc t))
        \<and> (\<forall>kw \<in> set (missing_keywords_fc t). sublist kw (ls ! 5))
        \<and> ls ! 7 = ascii ''META ('' @ str_int (int (length_fc m)) @ ascii ''/'' @
              str_int (max_allowed m) @ ascii ''): '' @ meta_description res
        \<and> ls ! 8 = [32, 32, 1044, 1083, 1080, 1085, 1072, 32, 1054, 1050, 58, 32] @ (if ok_length m then [10003] else [10007]) @
          [59, 32, 1054, 1090, 1089, 1091, 1090, 1089, 1090, 1074, 1091, 1102, 1090, 32, 1082, 1083,
           1102, 1095, 1077, 1074, 1099, 1077, 58, 32] @
          (if missing_keywords_fc m = [] then [8212]
           else join (ascii '', '') (missing_keywords_fc m))
        \<and> (\<forall>kw \<in> set (missing_keywords_fc m). sublist kw (ls ! 8))
        \<and> ls ! 10 = ascii ''SUMMARY ('' @ str_int (int (length_fc s)) @ ascii ''/'' @
              str_int (max_allowed s) @ ascii ''): '' @ summary res
        \<and> ls ! 11 = [32, 32, 1044, 1083, 1080, 1085, 1072, 32, 1054, 1050, 58, 32] @ (if ok_length s then [10003] else [10007]) @
          [59, 32, 1054, 1090, 1089, 1091, 1090, 1089, 1090, 1074, 1091, 1102, 1090, 32, 1082, 1083,
           1102, 1095, 1077, 1074, 1099, 1077, 58, 32] @
          (if missing_keywords_fc s = [] then [8212]
           else join (ascii '', '') (missing_keywords_fc s))
        \<and> (\<forall>kw \<in> set (missing_keywords_fc s). sublist kw (ls ! 11))
        \<and> (last ls = [1048, 1090, 1086, 1075, 1086, 1074, 1072, 1103, 32, 1084, 1077, 1090, 1088, 1080, 1082,
           1072, 32, 40, 1074, 1089, 1077, 32, 1090, 1088, 1077, 1073, 1086, 1074, 1072, 1085, 1080,
           1103, 32, 1074, 1099, 1087, 1086, 1083, 1085, 1077, 1085, 1099, 41, 58, 32] @ [10003]
           \<or> last ls = [1048, 1090, 1086, 1075, 1086, 1074, 1072, 1103, 32, 1084, 1077, 1090, 1088, 1080, 1082,
           1072, 32, 40, 1074, 1089, 1077, 32, 1090, 1088, 1077, 1073, 1086, 1074, 1072, 1085, 1080,
           1103, 32, 1074, 1099, 1087, 1086, 1083, 1085, 1077, 1085, 1099, 41, 58, 32] @ [10007])
        \<and> (last ls = [1048, 1090, 1086, 1075, 1086, 1074, 1072, 1103, 32, 1084, 1077, 1090, 1088, 1080, 1082,
           1072, 32, 40, 1074, 1089, 1077, 32, 1090, 1088, 1077, 1073, 1086, 1074, 1072, 1085, 1080,
           1103, 32, 1074, 1099, 1087, 1086, 1083, 1085, 1077, 1085, 1099, 41, 58, 32] @ [10003] \<longleftrightarrow>
             ok_length t \<and> missing_keywords_fc t = []
           \<and> ok_length m \<and> missing_keywords_fc m = []
           \<and> ok_length s \<and> missing_keywords_fc s = []))"
    apply (rule exI [of _ ls])
    apply (intro conjI)
    apply (rule l)
    apply (rule p)
    apply (rule n)
    apply (rule h4)
    apply (rule e5)
    apply (rule m5)
    apply (rule h7)
    apply (rule e8)
    apply (rule m8)
    apply (rule h10)
    apply (rule e11)
    apply (rule m11)
    apply (rule v1)
    apply (rule v2)
    done
next
  assume "run U E self tp lo ko synth out w = (Inr r, w')"
  then obtain kws meta ttl summ where
    r: "r = assemble U E self tp (resolved_language U tp lo) kws meta ttl summ"
    unfolding run_Inr by blast
  show "\<exists>report. pretty_report r = Inr report"
    unfolding r pretty_report_def
    by (simp add: report_lines_of_checks [OF checks_assemble])
  show "\<exists>cm ct cs. checks r (ascii ''meta_description'') = Some cm
            \<and> checks r (ascii ''title'') = Some ct \<and> checks r (ascii ''summary'') = Some cs"
    unfolding r by (simp add: checks_assemble)
qed


theorem pretty_report_verdict_witness:
  "fst (run basic_ucd scenario_C_env default_system (ascii ''electric bicycles'') None (Some [ascii ''bicycle'']) True None world0)
     = Inr (assemble basic_ucd scenario_C_env default_system (ascii ''electric bicycles'')
        (ascii ''en'') [ascii ''bicycle'']
        (ascii ''Buy the best bikes online'') (ascii ''Best bikes for the city'')
        (ascii ''All about bikes.''))
   \<and> checks (assemble basic_ucd scenario_C_env default_system (ascii ''electric bicycles'')
        (ascii ''en'') [ascii ''bicycle'']
        (ascii ''Buy the best bikes online'') (ascii ''Best bikes for the city'')
        (ascii ''All about bikes.'')) (ascii ''meta_description'') = Some (check_field basic_ucd (ascii ''Buy the best bikes online'') 150 (Some [ascii ''bicycle'']))
   \<and> checks (assemble basic_ucd scenario_C_env default_system (ascii ''electric bicycles'')
        (ascii ''en'') [ascii ''bicycle'']
        (ascii ''Buy the best bikes online'') (ascii ''Best bikes for the city'')
        (ascii ''All about bikes.'')) (ascii ''title'') = Some (check_field basic_ucd (ascii ''Best bikes for the city'') 60 (Some [ascii ''bicycle'']))
   \<and> checks (assemble basic_ucd scenario_C_env default_system (ascii ''electric bicycles'')
        (ascii ''en'') [ascii ''bicycle'']
        (ascii ''Buy the best bikes online'') (ascii ''Best bikes for the city'')
        (ascii ''All about bikes.'')) (ascii ''summary'') = Some (check_field basic_ucd (ascii ''All about bikes.'') 300 (Some [ascii ''bicycle'']))
   \<and> (\<exists>report. pretty_report (assemble basic_ucd scenario_C_env default_system (ascii ''electric bicycles'')
        (ascii ''en'') [ascii ''bicycle'']
        (ascii ''Buy the best bikes online'') (ascii ''Best bikes for the city'')
        (ascii ''All about bikes.'')) = Inr report)
   \<and> (\<exists>ls. report_lines (assemble basic_ucd scenario_C_env default_system (ascii ''electric bicycles'')
        (ascii ''en'') [ascii ''bicycle'']
        (ascii ''Buy the best bikes online'') (ascii ''Best bikes for the city'')
        (ascii ''All about bikes.'')) = Inr ls
          \<and> ls ! 7 = ascii ''META (25/150): Buy the best bikes online''
          \<and> ls ! 8 = [32, 32, 1044, 1083, 1080, 1085, 1072, 32, 1054, 1050, 58, 32] @ [10003] @
                [59, 32, 1054, 1090, 1089, 1091, 1090, 1089, 1090, 1074, 1091, 1102, 1090, 32, 1082, 1083,
           1102, 1095, 1077, 1074, 1099, 1077, 58, 32] @ ascii ''bicycle''
          \<and> sublist (ascii ''bicycle'') (ls ! 8)
          \<and> last ls = [1048, 1090, 1086, 1075, 1086, 1074, 1072, 1103, 32, 1084, 1077, 1090, 1088, 1080, 1082,
           1072, 32, 40, 1074, 1089, 1077, 32, 1090, 1088, 1077, 1073, 1086, 1074, 1072, 1085, 1080,
           1103, 32, 1074, 1099, 1087, 1086, 1083, 1085, 1077, 1085, 1099, 41, 58, 32] @ [10007])
   \<and> (\<exists>ls. report_lines (assemble basic_ucd scenario_C_env default_system (ascii ''electric bicycles'')
        (ascii ''en'') []
        (ascii ''Buy the best bikes online'') (ascii ''Best bikes for the city'')
        (ascii ''All about bikes.'')) = Inr ls
          \<and> ls ! 8 = [32, 32, 1044, 1083, 1080, 1085, 1072, 32, 1054, 1050, 58, 32] @ [10003] @
                [59, 32, 1054, 1090, 1089, 1091, 1090, 1089, 1090, 1074, 1091, 1102, 1090, 32, 1082, 1083,
           1102, 1095, 1077, 1074, 1099, 1077, 58, 32] @ [8212]
          \<and> last ls = [1048, 1090, 1086, 1075, 1086, 1074, 1072, 1103, 32, 1084, 1077, 1090, 1088, 1080, 1082,
           1072, 32, 40, 1074, 1089, 1077, 32, 1090, 1088, 1077, 1073, 1086, 1074, 1072, 1085, 1080,
           1103, 32, 1074, 1099, 1087, 1086, 1083, 1085, 1077, 1085, 1099, 41, 58, 32] @ [10003])"
proof -
  let ?run = "run basic_ucd scenario_C_env default_system (ascii ''electric bicycles'') None (Some [ascii ''bicycle'']) True None world0"
  have a: "?run = (Inr (assemble basic_ucd scenario_C_env default_system (ascii ''electric bicycles'')
        (ascii ''en'') [ascii ''bicycle'']
        (ascii ''Buy the best bikes online'') (ascii ''Best bikes for the city'')
        (ascii ''All about bikes.'')), snd ?run)"
    using scenario_C_run_eval by (metis prod.collapse)
  have mm: "missing_keywords_fc (check_field basic_ucd (ascii ''Buy the best bikes online'') 150 (Some [ascii ''bicycle''])) = [ascii ''bicycle'']"
    by (simp add: check_field_simps scenario_C_missing)
  have okm: "ok_length (check_field basic_ucd (ascii ''Buy the best bikes online'') 150 (Some [ascii ''bicycle'']))"
    by (simp add: check_field_simps ascii_def)
  note thB = pretty_report_verdict
         [where res = "(assemble basic_ucd scenario_C_env default_system (ascii ''electric bicycles'')
        (ascii ''en'') [ascii ''bicycle'']
        (ascii ''Buy the best bikes online'') (ascii ''Best bikes for the city'')
        (ascii ''All about bikes.''))" and m = "(check_field basic_ucd (ascii ''Buy the best bikes online'') 150 (Some [ascii ''bicycle'']))" and t = "(check_field basic_ucd (ascii ''Best bikes for the city'') 60 (Some [ascii ''bicycle'']))" and s = "(check_field basic_ucd (ascii ''All about bikes.'') 300 (Some [ascii ''bicycle'']))"
            and U = basic_ucd and E = scenario_C_env and self = default_system and tp = "(ascii ''electric bicycles'')"
            and lo = None and ko = "Some [ascii ''bicycle'']" and synth = True and out = None and w = world0
            and r = "(assemble basic_ucd scenario_C_env default_system (ascii ''electric bicycles'')
        (ascii ''en'') [ascii ''bicycle'']
        (ascii ''Buy the best bikes online'') (ascii ''Best bikes for the city'')
        (ascii ''All about bikes.''))" and w' = "snd ?run"]
  from thB a have rep: "\<exists>report. pretty_report (assemble basic_ucd scenario_C_env default_system (ascii ''electric bicycles'')
        (ascii ''en'') [ascii ''bicycle'']
        (ascii ''Buy the best bikes online'') (ascii ''Best bikes for the city'')
        (ascii ''All about bikes.'')) = Inr report"
    by blast
  have cs: "checks (assemble basic_ucd scenario_C_env default_system (ascii ''electric bicycles'')
        (ascii ''en'') [ascii ''bicycle'']
        (ascii ''Buy the best bikes online'') (ascii ''Best bikes for the city'')
        (ascii ''All about bikes.'')) (ascii ''meta_description'') = Some (check_field basic_ucd (ascii ''Buy the best bikes online'') 150 (Some [ascii ''bicycle'']))
      \<and> checks (assemble basic_ucd scenario_C_env default_system (ascii ''electric bicycles'')
        (ascii ''en'') [ascii ''bicycle'']
        (ascii ''Buy the best bikes online'') (ascii ''Best bikes for the city'')
        (ascii ''All about bikes.'')) (ascii ''title'') = Some (check_field basic_ucd (ascii ''Best bikes for the city'') 60 (Some [ascii ''bicycle'']))
      \<and> checks (assemble basic_ucd scenario_C_env default_system (ascii ''electric bicycles'')
        (ascii ''en'') [ascii ''bicycle'']
        (ascii ''Buy the best bikes online'') (ascii ''Best bikes for the city'')
        (ascii ''All about bikes.'')) (ascii ''summary'') = Some (check_field basic_ucd (ascii ''All about bikes.'') 300 (Some [ascii ''bicycle'']))"
    by (simp add: checks_assemble)
  from thB [THEN conjunct1, THEN mp, OF cs] obtain ls where
      l1: "report_lines (assemble basic_ucd scenario_C_env default_system (ascii ''electric bicycles'')
        (ascii ''en'') [ascii ''bicycle'']
        (ascii ''Buy the best bikes online'') (ascii ''Best bikes for the city'')
        (ascii ''All about bikes.'')) = Inr ls"
    and l7: "ls ! 7 = ascii ''META ('' @ str_int (int (length_fc (check_field basic_ucd (ascii ''Buy the best bikes online'') 150 (Some [ascii ''bicycle''])))) @ ascii ''/'' @
              str_int (max_allowed (check_field basic_ucd (ascii ''Buy the best bikes online'') 150 (Some [ascii ''bicycle'']))) @ ascii ''): '' @ meta_description (assemble basic_ucd scenario_C_env default_system (ascii ''electric bicycles'')
        (ascii ''en'') [ascii ''bicycle'']
        (ascii ''Buy the best bikes online'') (ascii ''Best bikes for the city'')
        (ascii ''All about bikes.''))"
    and l8: "ls ! 8 = [32, 32, 1044, 1083, 1080, 1085, 1072, 32, 1054, 1050, 58, 32] @ (if ok_length (check_field basic_ucd (ascii ''Buy the best bikes online'') 150 (Some [ascii ''bicycle''])) then [10003] else [10007]) @
          [59, 32, 1054, 1090, 1089, 1091, 1090, 1089, 1090, 1074, 1091, 1102, 1090, 32, 1082, 1083,
           1102, 1095, 1077, 1074, 1099, 1077, 58, 32] @
          (if missing_keywords_fc (check_field basic_ucd (ascii ''Buy the best bikes online'') 150 (Some [ascii ''bicycle''])) = [] then [8212]
           else join (ascii '', '') (missing_keywords_fc (check_field basic_ucd (ascii ''Buy the best bikes online'') 150 (Some [ascii ''bicycle'']))))"
    and b8: "\<forall>kw \<in> set (missing_keywords_fc (check_field basic_ucd (ascii ''Buy the best bikes online'') 150 (Some [ascii ''bicycle'']))). sublist kw (ls ! 8)"
    and l3: "last ls = [1048, 1090, 1086, 1075, 1086, 1074, 1072, 1103, 32, 1084, 1077, 1090, 1088, 1080, 1082,
           1072, 32, 40, 1074, 1089, 1077, 32, 1090, 1088, 1077, 1073, 1086, 1074, 1072, 1085, 1080,
           1103, 32, 1074, 1099, 1087, 1086, 1083, 1085, 1077, 1085, 1099, 41, 58, 32] @ [10003]
           \<or> last ls = [1048, 1090, 1086, 1075, 1086, 1074, 1072, 1103, 32, 1084, 1077, 1090, 1088, 1080, 1082,
           1072, 32, 40, 1074, 1089, 1077, 32, 1090, 1088, 1077, 1073, 1086, 1074, 1072, 1085, 1080,
           1103, 32, 1074, 1099, 1087, 1086, 1083, 1085, 1077, 1085, 1099, 41, 58, 32] @ [10007]"
    and l4: "last ls = [1048, 1090, 1086, 1075, 1086, 1074, 1072, 1103, 32, 1084, 1077, 1090, 1088, 1080, 1082,
           1072, 32, 40, 1074, 1089, 1077, 32, 1090, 1088, 1077, 1073, 1086, 1074, 1072, 1085, 1080,
           1103, 32, 1074, 1099, 1087, 1086, 1083, 1085, 1077, 1085, 1099, 41, 58, 32] @ [10003] \<longleftrightarrow>
             ok_length (check_field basic_ucd (ascii ''Best bikes for the city'') 60 (Some [ascii ''bicycle''])) \<and> missing_keywords_fc (check_field basic_ucd (ascii ''Best bikes for the city'') 60 (Some [ascii ''bicycle''])) = []
           \<and> ok_length (check_field basic_ucd (ascii ''Buy the best bikes online'') 150 (Some [ascii ''bicycle''])) \<and> missing_keywords_fc (check_field basic_ucd (ascii ''Buy the best bikes online'') 150 (Some [ascii ''bicycle''])) = []
           \<and> ok_length (check_field basic_ucd (ascii ''All about bikes.'') 300 (Some [ascii ''bicycle''])) \<and> missing_keywords_fc (check_field basic_ucd (ascii ''All about bikes.'') 300 (Some [ascii ''bicycle''])) = []"
    by (elim exE conjE)
  from l3 l4 mm have l5: "last ls = [1048, 1090, 1086, 1075, 1086, 1074, 1072, 1103, 32, 1084, 1077, 1090, 1088, 1080, 1082,
           1072, 32, 40, 1074, 1089, 1077, 32, 1090, 1088, 1077, 1073, 1086, 1074, 1072, 1085, 1080,
           1103, 32, 1074, 1099, 1087, 1086, 1083, 1085, 1077, 1085, 1099, 41, 58, 32] @ [10007]" by auto
  have c7: "ls ! 7 = ascii ''META (25/150): Buy the best bikes online''"
    unfolding l7 by (simp add: check_field_simps fields_assemble str_int_def digits.simps ascii_def)
  have c8: "ls ! 8 = [32, 32, 1044, 1083, 1080, 1085, 1072, 32, 1054, 1050, 58, 32] @ [10003] @
                [59, 32, 1054, 1090, 1089, 1091, 1090, 1089, 1090, 1074, 1091, 1102, 1090, 32, 1082, 1083,
           1102, 1095, 1077, 1074, 1099, 1077, 58, 32] @ ascii ''bicycle''"
    unfolding l8 using okm mm by simp
  from b8 mm have s8: "sublist (ascii ''bicycle'') (ls ! 8)" by simp
  have eB: "\<exists>ls. report_lines (assemble basic_ucd scenario_C_env default_system (ascii ''electric bicycles'')
        (ascii ''en'') [ascii ''bicycle'']
        (ascii ''Buy the best bikes online'') (ascii ''Best bikes for the city'')
        (ascii ''All about bikes.'')) = Inr ls
          \<and> ls ! 7 = ascii ''META (25/150): Buy the best bikes online''
          \<and> ls ! 8 = [32, 32, 1044, 1083, 1080, 1085, 1072, 32, 1054, 1050, 58, 32] @ [10003] @
                [59, 32, 1054, 1090, 1089, 1091, 1090, 1089, 1090, 1074, 1091, 1102, 1090, 32, 1082, 1083,
           1102, 1095, 1077, 1074, 1099, 1077, 58, 32] @ ascii ''bicycle''
          \<and> sublist (ascii ''bicycle'') (ls ! 8)
          \<and> last ls = [1048, 1090, 1086, 1075, 1086, 1074, 1072, 1103, 32, 1084, 1077, 1090, 1088, 1080, 1082,
           1072, 32, 40, 1074, 1089, 1077, 32, 1090, 1088, 1077, 1073, 1086, 1074, 1072, 1085, 1080,
           1103, 32, 1074, 1099, 1087, 1086, 1083, 1085, 1077, 1085, 1099, 41, 58, 32] @ [10007]"
    using l1 c7 c8 s8 l5 by blast
  have ok0: "ok_length (check_field basic_ucd (ascii ''Best bikes for the city'') 60 (Some [])) \<and> missing_keywords_fc (check_field basic_ucd (ascii ''Best bikes for the city'') 60 (Some [])) = []
           \<and> ok_length (check_field basic_ucd (ascii ''Buy the best bikes online'') 150 (Some [])) \<and> missing_keywords_fc (check_field basic_ucd (ascii ''Buy the best bikes online'') 150 (Some [])) = []
           \<and> ok_length (check_field basic_ucd (ascii ''All about bikes.'') 300 (Some [])) \<and> missing_keywords_fc (check_field basic_ucd (ascii ''All about bikes.'') 300 (Some [])) = []"
    by (simp add: check_field_simps missing_keywords_def ascii_def)
  have cs0: "checks (assemble basic_ucd scenario_C_env default_system (ascii ''electric bicycles'')
        (ascii ''en'') []
        (ascii ''Buy the best bikes online'') (ascii ''Best bikes for the city'')
        (ascii ''All about bikes.'')) (ascii ''meta_description'') = Some (check_field basic_ucd (ascii ''Buy the best bikes online'') 150 (Some []))
      \<and> checks (assemble basic_ucd scenario_C_env default_system (ascii ''electric bicycles'')
        (ascii ''en'') []
        (ascii ''Buy the best bikes online'') (ascii ''Best bikes for the city'')
        (ascii ''All about bikes.'')) (ascii ''title'') = Some (check_field basic_ucd (ascii ''Best bikes for the city'') 60 (Some []))
      \<and> checks (assemble basic_ucd scenario_C_env default_system (ascii ''electric bicycles'')
        (ascii ''en'') []
        (ascii ''Buy the best bikes online'') (ascii ''Best bikes for the city'')
        (ascii ''All about bikes.'')) (ascii ''summary'') = Some (check_field basic_ucd (ascii ''All about bikes.'') 300 (Some []))"
    by (simp add: checks_assemble)
  from pretty_report_verdict
         [where res = "(assemble basic_ucd scenario_C_env default_system (ascii ''electric bicycles'')
        (ascii ''en'') []
        (ascii ''Buy the best bikes online'') (ascii ''Best bikes for the city'')
        (ascii ''All about bikes.''))" and m = "(check_field basic_ucd (ascii ''Buy the best bikes online'') 150 (Some []))" and t = "(check_field basic_ucd (ascii ''Best bikes for the city'') 60 (Some []))" and s = "(check_field basic_ucd (ascii ''All about bikes.'') 300 (Some []))",
          THEN conjunct1, THEN mp, OF cs0]
  obtain ls0 where z1: "report_lines (assemble basic_ucd scenario_C_env default_system (ascii ''electric bicycles'')
        (ascii ''en'') []
        (ascii ''Buy the best bikes online'') (ascii ''Best bikes for the city'')
        (ascii ''All about bikes.'')) = Inr ls0"
    and z8: "ls0 ! 8 = [32, 32, 1044, 1083, 1080, 1085, 1072, 32, 1054, 1050, 58, 32] @ (if ok_length (check_field basic_ucd (ascii ''Buy the best bikes online'') 150 (Some [])) then [10003] else [10007]) @
          [59, 32, 1054, 1090, 1089, 1091, 1090, 1089, 1090, 1074, 1091, 1102, 1090, 32, 1082, 1083,
           1102, 1095, 1077, 1074, 1099, 1077, 58, 32] @
          (if missing_keywords_fc (check_field basic_ucd (ascii ''Buy the best bikes online'') 150 (Some [])) = [] then [8212]
           else join (ascii '', '') (missing_keywords_fc (check_field basic_ucd (ascii ''Buy the best bikes online'') 150 (Some []))))"
    and z2: "last ls0 = [1048, 1090, 1086, 1075, 1086, 1074, 1072, 1103, 32, 1084, 1077, 1090, 1088, 1080, 1082,
           1072, 32, 40, 1074, 1089, 1077, 32, 1090, 1088, 1077, 1073, 1086, 1074, 1072, 1085, 1080,
           1103, 32, 1074, 1099, 1087, 1086, 1083, 1085, 1077, 1085, 1099, 41, 58, 32] @ [10003] \<longleftrightarrow>
             ok_length (check_field basic_ucd (ascii ''Best bikes for the city'') 60 (Some [])) \<and> missing_keywords_fc (check_field basic_ucd (ascii ''Best bikes for the city'') 60 (Some [])) = []
           \<and> ok_length (check_field basic_ucd (ascii ''Buy the best bikes online'') 150 (Some [])) \<and> missing_keywords_fc (check_field basic_ucd (ascii ''Buy the best bikes online'') 150 (Some [])) = []
           \<and> ok_length (check_field basic_ucd (ascii ''All about bikes.'') 300 (Some [])) \<and> missing_keywords_fc (check_field basic_ucd (ascii ''All about bikes.'') 300 (Some [])) = []"
    by (elim exE conjE)
  from z2 ok0 have z3: "last ls0 = [1048, 1090, 1086, 1075, 1086, 1074, 1072, 1103, 32, 1084, 1077, 1090, 1088, 1080, 1082,
           1072, 32, 40, 1074, 1089, 1077, 32, 1090, 1088, 1077, 1073, 1086, 1074, 1072, 1085, 1080,
           1103, 32, 1074, 1099, 1087, 1086, 1083, 1085, 1077, 1085, 1099, 41, 58, 32] @ [10003]" by simp
  have d8: "ls0 ! 8 = [32, 32, 1044, 1083, 1080, 1085, 1072, 32, 1054, 1050, 58, 32] @ [10003] @
                [59, 32, 1054, 1090, 1089, 1091, 1090, 1089, 1090, 1074, 1091, 1102, 1090, 32, 1082, 1083,
           1102, 1095, 1077, 1074, 1099, 1077, 58, 32] @ [8212]"
    unfolding z8 using ok0 by simp
  have e0: "\<exists>ls. report_lines (assemble basic_ucd scenario_C_env default_system (ascii ''electric bicycles'')
        (ascii ''en'') []
        (ascii ''Buy the best bikes online'') (ascii ''Best bikes for the city'')
        (ascii ''All about bikes.'')) = Inr ls
          \<and> ls ! 8 = [32, 32, 1044, 1083, 1080, 1085, 1072, 32, 1054, 1050, 58, 32] @ [10003] @
                [59, 32, 1054, 1090, 1089, 1091, 1090, 1089, 1090, 1074, 1091, 1102, 1090, 32, 1082, 1083,
           1102, 1095, 1077, 1074, 1099, 1077, 58, 32] @ [8212]
          \<and> last ls = [1048, 1090, 1086, 1075, 1086, 1074, 1072, 1103, 32, 1084, 1077, 1090, 1088, 1080, 1082,
           1072, 32, 40, 1074, 1089, 1077, 32, 1090, 1088, 1077, 1073, 1086, 1074, 1072, 1085, 1080,
           1103, 32, 1074, 1099, 1087, 1086, 1083, 1085, 1077, 1085, 1099, 41, 58, 32] @ [10003]"
    using z1 d8 z3 by blast
  from scenario_C_run_eval cs rep eB e0 show ?thesis
    by simp
qed

end
